theory Spec2Isabelle
  imports Main
begin

section \<open>JSON documents and the Python operations applied to them\<close>

text \<open>
  The catalog, the registry (\<^verbatim>\<open>Installed_IPs.json\<close>) and the dependency manifest
  (\<^verbatim>\<open>dependencies.json\<close>) are handled by \<^verbatim>\<open>src/ipm/common.py\<close> as the raw values
  that \<^verbatim>\<open>json.load\<close> returns. A dict keeps its insertion order, so an object is an
  association list (its keys are distinct in every value Python can build). Numbers are
  integers here; none of the modelled code computes with them.
\<close>

datatype json =
    JNull
  | JBool bool
  | JNum int
  | JStr string
  | JArr "json list"
  | JObj "(string \<times> json) list"

text \<open>
  The exceptions the modelled code can raise. \<open>SystemExit\<close> is \<^verbatim>\<open>exit(1)\<close>.
  \<open>Unmodelled\<close> marks the one place where the model stops short of Python:
  formatting a list or a dict into an f-string (its \<^verbatim>\<open>repr\<close>).
\<close>

datatype error =
    KeyError string
  | TypeError
  | AttributeError string
  | IndexError
  | FileNotFoundError string
  | NotADirectoryError string
  | FileExistsError string
  | IsADirectoryError string
  | JSONDecodeError
  | ReadError
  | SystemExit nat
  | Unmodelled

text \<open>Python's \<^verbatim>\<open>==\<close> on JSON values: \<^verbatim>\<open>True == 1\<close>, and dicts compare without order.\<close>

fun py_eq :: "json \<Rightarrow> json \<Rightarrow> bool" where
  "py_eq JNull JNull = True"
| "py_eq (JBool a) (JBool b) = (a = b)"
| "py_eq (JBool a) (JNum n) = (n = (if a then 1 else 0))"
| "py_eq (JNum n) (JBool a) = (n = (if a then 1 else 0))"
| "py_eq (JNum m) (JNum n) = (m = n)"
| "py_eq (JStr s) (JStr t) = (s = t)"
| "py_eq (JArr xs) (JArr ys) = list_all2 py_eq xs ys"
| "py_eq (JObj fs) (JObj gs) =
     (length fs = length gs \<and>
      list_all (\<lambda>(k, v). case map_of gs k of None \<Rightarrow> False | Some w \<Rightarrow> py_eq v w) fs)"
| "py_eq _ _ = False"

text \<open>\<^verbatim>\<open>s.split('/')\<close>: one more part than there are separators.\<close>

fun split_on :: "char \<Rightarrow> string \<Rightarrow> string list" where
  "split_on c [] = [[]]"
| "split_on c (x # xs) =
     (if x = c then [] # split_on c xs
      else (case split_on c xs of [] \<Rightarrow> [[x]] | p # ps \<Rightarrow> (x # p) # ps))"

fun is_prefix :: "string \<Rightarrow> string \<Rightarrow> bool" where
  "is_prefix [] s = True"
| "is_prefix (p # ps) [] = False"
| "is_prefix (p # ps) (c # cs) = (p = c \<and> is_prefix ps cs)"

text \<open>\<^verbatim>\<open>p in s\<close> for two strings.\<close>

fun is_substring :: "string \<Rightarrow> string \<Rightarrow> bool" where
  "is_substring p [] = (p = [])"
| "is_substring p (c # cs) = (is_prefix p (c # cs) \<or> is_substring p cs)"

text \<open>\<^verbatim>\<open>x[key]\<close> with a string key.\<close>

definition subscript :: "json \<Rightarrow> string \<Rightarrow> error + json" where
  "subscript x key =
     (case x of
        JObj fs \<Rightarrow> (case map_of fs key of None \<Rightarrow> Inl (KeyError key) | Some v \<Rightarrow> Inr v)
      | _ \<Rightarrow> Inl TypeError)"

text \<open>\<^verbatim>\<open>x[-1]\<close>.\<close>

definition subscript_last :: "json \<Rightarrow> error + json" where
  "subscript_last x =
     (case x of
        JArr xs \<Rightarrow> (if xs = [] then Inl IndexError else Inr (last xs))
      | JStr s \<Rightarrow> (if s = [] then Inl IndexError else Inr (JStr [last s]))
      | JObj fs \<Rightarrow> Inl (KeyError ''-1'')
      | _ \<Rightarrow> Inl TypeError)"

text \<open>\<^verbatim>\<open>key in x\<close> with a string key.\<close>

definition contains_str :: "string \<Rightarrow> json \<Rightarrow> error + bool" where
  "contains_str key x =
     (case x of
        JObj fs \<Rightarrow> Inr (map_of fs key \<noteq> None)
      | JArr xs \<Rightarrow> Inr (list_ex (\<lambda>y. py_eq y (JStr key)) xs)
      | JStr s \<Rightarrow> Inr (is_substring key s)
      | _ \<Rightarrow> Inl TypeError)"

text \<open>\<^verbatim>\<open>for v in x\<close>: a dict yields its keys, a string its characters.\<close>

definition iterate :: "json \<Rightarrow> error + json list" where
  "iterate x =
     (case x of
        JArr xs \<Rightarrow> Inr xs
      | JObj fs \<Rightarrow> Inr (map (\<lambda>(k, v). JStr k) fs)
      | JStr s \<Rightarrow> Inr (map (\<lambda>c. JStr [c]) s)
      | _ \<Rightarrow> Inl TypeError)"

text \<open>\<^verbatim>\<open>x.items()\<close> and \<^verbatim>\<open>x.keys()\<close> exist on dicts only.\<close>

definition items :: "json \<Rightarrow> error + (string \<times> json) list" where
  "items x = (case x of JObj fs \<Rightarrow> Inr fs | _ \<Rightarrow> Inl (AttributeError ''items''))"

definition keys :: "json \<Rightarrow> error + string list" where
  "keys x = (case x of JObj fs \<Rightarrow> Inr (map fst fs) | _ \<Rightarrow> Inl (AttributeError ''keys''))"

text \<open>\<^verbatim>\<open>x.get(key, default)\<close>.\<close>

definition get_default :: "json \<Rightarrow> string \<Rightarrow> json \<Rightarrow> error + json" where
  "get_default x key d =
     (case x of
        JObj fs \<Rightarrow> Inr (case map_of fs key of None \<Rightarrow> d | Some v \<Rightarrow> v)
      | _ \<Rightarrow> Inl (AttributeError ''get''))"

text \<open>\<^verbatim>\<open>d[key] = v\<close>: an existing key keeps its place, a new key goes last.\<close>

fun dict_set :: "string \<Rightarrow> json \<Rightarrow> (string \<times> json) list \<Rightarrow> (string \<times> json) list" where
  "dict_set k v [] = [(k, v)]"
| "dict_set k v ((k', v') # fs) =
     (if k' = k then (k, v) # fs else (k', v') # dict_set k v fs)"

text \<open>\<^verbatim>\<open>del d[key]\<close>.\<close>

definition dict_del :: "string \<Rightarrow> (string \<times> json) list \<Rightarrow> error + (string \<times> json) list" where
  "dict_del k fs =
     (if map_of fs k = None then Inl (KeyError k) else Inr (filter (\<lambda>(k', v). k' \<noteq> k) fs))"

text \<open>\<^verbatim>\<open>str(x)\<close>, as an f-string formats a value.\<close>

fun digits :: "nat \<Rightarrow> string" where
  "digits n =
     (if n < 10 then [char_of (48 + n)] else digits (n div 10) @ [char_of (48 + n mod 10)])"

definition py_str :: "json \<Rightarrow> string option" where
  "py_str x =
     (case x of
        JStr s \<Rightarrow> Some s
      | JNull \<Rightarrow> Some ''None''
      | JBool b \<Rightarrow> Some (if b then ''True'' else ''False'')
      | JNum n \<Rightarrow> Some (if n < 0 then CHR ''-'' # digits (nat (- n)) else digits (nat n))
      | _ \<Rightarrow> None)"

section \<open>Objects and sequencing\<close>

text \<open>
  \<^verbatim>\<open>LocalIP\<close> and \<^verbatim>\<open>RemoteIP\<close> are read back through \<^verbatim>\<open>__dict__\<close>
  (\<^verbatim>\<open>get_info_from_atr\<close>), so an instance is the ordered list of the attributes set so far.
\<close>

type_synonym obj = "(string \<times> json) list"

definition attr :: "obj \<Rightarrow> string \<Rightarrow> error + json" where
  "attr self a = (case map_of self a of None \<Rightarrow> Inl (AttributeError a) | Some v \<Rightarrow> Inr v)"

text \<open>\<^verbatim>\<open>self.a = v\<close> and \<^verbatim>\<open>self.a = src[key]\<close>, as steps that may raise.\<close>

definition assign :: "string \<Rightarrow> json \<Rightarrow> obj \<Rightarrow> error + obj" where
  "assign a v self = Inr (dict_set a v self)"

definition assign_from :: "string \<Rightarrow> json \<Rightarrow> string \<Rightarrow> obj \<Rightarrow> error + obj" where
  "assign_from a src key self =
     (case subscript src key of Inl e \<Rightarrow> Inl e | Inr v \<Rightarrow> Inr (dict_set a v self))"

text \<open>Statements in sequence: the first exception ends the run.\<close>

fun chain :: "('s \<Rightarrow> error + 's) list \<Rightarrow> 's \<Rightarrow> error + 's" where
  "chain [] s = Inr s"
| "chain (f # fs) s = (case f s of Inl e \<Rightarrow> Inl e | Inr s' \<Rightarrow> chain fs s')"

section \<open>\<^verbatim>\<open>RemoteIP.get_info\<close>: version and URL resolution\<close>

text \<open>The release fields of the new (flat) format, read from \<^verbatim>\<open>value["release"][ver]\<close>.\<close>

definition flat_release_fields :: "json \<Rightarrow> string \<Rightarrow> obj \<Rightarrow> error + obj" where
  "flat_release_fields rel ver self =
     (case subscript rel ver of
        Inl e \<Rightarrow> Inl e
      | Inr release_info \<Rightarrow>
          chain
            [assign_from ''date'' release_info ''date'',
             assign_from ''type'' release_info ''type'',
             assign_from ''width'' release_info ''width'',
             assign_from ''height'' release_info ''height'',
             assign_from ''cell_count'' release_info ''cell_count'',
             assign_from ''clk_freq'' release_info ''clock_freq_mhz'',
             (\<lambda>s. case get_default release_info ''maturity'' (JStr ''unknown'') of
                    Inl e \<Rightarrow> Inl e
                  | Inr m \<Rightarrow> assign ''status'' m s)]
            self)"

definition flat_version :: "json \<Rightarrow> string option \<Rightarrow> obj \<Rightarrow> error + obj" where
  "flat_version val version self =
     (case subscript val ''release'' of
        Inl e \<Rightarrow> Inl e
      | Inr rel \<Rightarrow>
          (case version of
             None \<Rightarrow>
               (case keys rel of
                  Inl e \<Rightarrow> Inl e
                | Inr versions \<Rightarrow>
                    if versions \<noteq> [] then
                      chain
                        [assign ''version'' (JStr (last versions)),
                         flat_release_fields rel (last versions)]
                        self
                    else Inr self)
           | Some v \<Rightarrow>
               (case contains_str v rel of
                  Inl e \<Rightarrow> Inl e
                | Inr True \<Rightarrow>
                    chain [assign ''version'' (JStr v), flat_release_fields rel v] self
                | Inr False \<Rightarrow> Inr self)))"

definition get_info_flat ::
  "json \<Rightarrow> string \<Rightarrow> string \<Rightarrow> string option \<Rightarrow> obj \<Rightarrow> error + obj" where
  "get_info_flat data ip technology version self =
     (case subscript data ip of
        Inl e \<Rightarrow> Inl e
      | Inr val \<Rightarrow>
          chain
            [assign ''name'' (JStr ip),
             assign_from ''repo'' val ''repo'',
             assign_from ''author'' val ''author'',
             assign_from ''email'' val ''email'',
             assign_from ''category'' val ''category'',
             assign ''technology'' (JStr technology),
             assign_from ''license'' val ''license'',
             assign_from ''tag'' val ''tags'',
             assign_from ''release'' val ''release'',
             flat_version val version]
            self)"

text \<open>The original (legacy) format: \<^verbatim>\<open>for v in value["release"]\<close> with a requested version.\<close>

fun legacy_pick_version :: "string \<Rightarrow> json list \<Rightarrow> obj \<Rightarrow> error + obj" where
  "legacy_pick_version version [] self = Inr self"
| "legacy_pick_version version (v # vs) self =
     (case subscript v ''version'' of
        Inl e \<Rightarrow> Inl e
      | Inr x \<Rightarrow>
          if py_eq x (JStr version) then
            (case chain [assign_from ''version'' v ''version'', assign_from ''date'' v ''date''] self of
               Inl e \<Rightarrow> Inl e
             | Inr self' \<Rightarrow> legacy_pick_version version vs self')
          else legacy_pick_version version vs self)"

definition legacy_version :: "json \<Rightarrow> string option \<Rightarrow> obj \<Rightarrow> error + obj" where
  "legacy_version val version self =
     (case subscript val ''release'' of
        Inl e \<Rightarrow> Inl e
      | Inr rel \<Rightarrow>
          (case version of
             None \<Rightarrow>
               (case subscript_last rel of
                  Inl e \<Rightarrow> Inl e
                | Inr latest \<Rightarrow>
                    chain
                      [assign_from ''version'' latest ''version'',
                       assign_from ''date'' latest ''date'']
                      self)
           | Some v \<Rightarrow>
               (case iterate rel of
                  Inl e \<Rightarrow> Inl e
                | Inr vs \<Rightarrow> legacy_pick_version v vs self)))"

text \<open>
  The body of the inner loop for one record \<open>val\<close> of category \<open>key\<close>:
  \<^verbatim>\<open>if value["name"] == self.ip and value["technology"] == technology\<close>.
\<close>

definition legacy_record ::
  "string \<Rightarrow> string \<Rightarrow> string option \<Rightarrow> string \<Rightarrow> json \<Rightarrow> obj \<Rightarrow> error + obj" where
  "legacy_record ip technology version key val self =
     (case subscript val ''name'' of
        Inl e \<Rightarrow> Inl e
      | Inr n \<Rightarrow>
          if \<not> py_eq n (JStr ip) then Inr self
          else
            (case subscript val ''technology'' of
               Inl e \<Rightarrow> Inl e
             | Inr t \<Rightarrow>
                 if \<not> py_eq t (JStr technology) then Inr self
                 else
                   chain
                     [assign ''name'' (JStr ip),
                      assign_from ''repo'' val ''repo'',
                      assign_from ''release'' val ''release'',
                      legacy_version val version,
                      assign_from ''author'' val ''author'',
                      assign_from ''email'' val ''email'',
                      assign ''category'' (JStr key),
                      assign_from ''type'' val ''type'',
                      assign_from ''status'' val ''status'',
                      assign_from ''width'' val ''width'',
                      assign_from ''height'' val ''height'',
                      assign ''technology'' (JStr technology),
                      assign_from ''tag'' val ''tag'',
                      assign_from ''cell_count'' val ''cell_count'',
                      assign_from ''clk_freq'' val ''clk_freq'',
                      assign_from ''license'' val ''license'']
                     self))"

text \<open>\<^verbatim>\<open>for key, values in data.items(): for value in values: ...\<close>\<close>

definition legacy_category ::
  "string \<Rightarrow> string \<Rightarrow> string option \<Rightarrow> string \<times> json \<Rightarrow> obj \<Rightarrow> error + obj" where
  "legacy_category ip technology version kv self =
     (case iterate (snd kv) of
        Inl e \<Rightarrow> Inl e
      | Inr vals \<Rightarrow> chain (map (legacy_record ip technology version (fst kv)) vals) self)"

definition get_info_legacy ::
  "json \<Rightarrow> string \<Rightarrow> string \<Rightarrow> string option \<Rightarrow> obj \<Rightarrow> error + obj" where
  "get_info_legacy data ip technology version self =
     (case items data of
        Inl e \<Rightarrow> Inl e
      | Inr kvs \<Rightarrow> chain (map (legacy_category ip technology version) kvs) self)"

text \<open>
  The installer's URL convention (the end of \<^verbatim>\<open>RemoteIP.get_info\<close>):
  \<^verbatim>\<open>repo_parts = self.repo.split('/')\<close>,
  \<^verbatim>\<open>if len(repo_parts) >= 3 and "github.com" in self.repo\<close>.
\<close>

definition release_url_for :: "string \<Rightarrow> string \<Rightarrow> string" where
  "release_url_for repo version =
     (let repo_parts = split_on CHR ''/'' repo in
      if 3 \<le> length repo_parts \<and> is_substring ''github.com'' repo then
        ''https://'' @ repo @ ''/archive/refs/tags/'' @ last repo_parts @ ''-'' @ version @ ''.tar.gz''
      else
        ''https://'' @ repo @ ''/releases/download/'' @ version @ ''/'' @ version @ ''.tar.gz'')"

definition set_release_url :: "obj \<Rightarrow> error + obj" where
  "set_release_url self =
     (case attr self ''repo'' of
        Inl e \<Rightarrow> Inl e
      | Inr repo \<Rightarrow>
          (case repo of
             JStr r \<Rightarrow>
               (case attr self ''version'' of
                  Inl e \<Rightarrow> Inl e
                | Inr v \<Rightarrow>
                    (case py_str v of
                       None \<Rightarrow> Inl Unmodelled
                     | Some vs \<Rightarrow>
                         chain
                           [assign ''possible_urls'' (JArr [JStr (release_url_for r vs)]),
                            assign ''release_url'' (JStr (release_url_for r vs))]
                           self))
           | _ \<Rightarrow> Inl (AttributeError ''split'')))"

text \<open>
  \<^verbatim>\<open>RemoteIP(ip).get_info(technology, version)\<close> against the catalog document \<open>data\<close>
  that the remote serves. The result is the instance with the attributes it has set.
\<close>

definition RemoteIP_get_info ::
  "json \<Rightarrow> string \<Rightarrow> string \<Rightarrow> string option \<Rightarrow> error + obj" where
  "RemoteIP_get_info data ip technology version =
     (case contains_str ip data of
        Inl e \<Rightarrow> Inl e
      | Inr new_format \<Rightarrow>
          chain
            [if new_format then get_info_flat data ip technology version
             else get_info_legacy data ip technology version,
             set_release_url]
            [(''ip'', JStr ip)])"

text \<open>The repository host, as the specification uses the word: the first segment of the location.\<close>

definition repo_host :: "string \<Rightarrow> string" where
  "repo_host repo = hd (split_on CHR ''/'' repo)"

section \<open>Paths, the file store and the network\<close>

text \<open>\<^verbatim>\<open>os.path.join(a, b)\<close> of \<^verbatim>\<open>posixpath\<close>.\<close>

definition path_join :: "string \<Rightarrow> string \<Rightarrow> string" where
  "path_join a b =
     (if is_prefix ''/'' b then b
      else if a = [] \<or> last a = CHR ''/'' then a @ b
      else a @ ''/'' @ b)"

definition LOCAL_JSON_FILE_NAME :: string where
  "LOCAL_JSON_FILE_NAME = ''Installed_IPs.json''"

definition DEPENDENCIES_FILE_NAME :: string where
  "DEPENDENCIES_FILE_NAME = ''dependencies.json''"

text \<open>
  What a path holds: a directory with its entries, a plain file, a JSON document (kept
  parsed), or a downloaded response body (\<open>None\<close> when it is not a tar archive).
\<close>

datatype fnode =
    Dir "(string \<times> fnode) list"
  | File string
  | JsonFile json
  | TarFile "(string \<times> fnode) list option"

text \<open>
  The state the modelled functions read and write. The file store maps the path strings
  the code builds to what they hold; paths are compared as strings, and removing a
  directory removes every path below it. The directories that hold the registry, the
  manifest and the packages themselves are taken to exist and to be writable.
  \<open>downloads\<close> lists the archive URLs requested so far.
\<close>

record world =
  store :: "string \<Rightarrow> fnode option"
  downloads :: "string list"

record response =
  status_code :: nat
  body :: "(string \<times> fnode) list option"

text \<open>
  What lies outside the repository: the catalog document served at
  \<^verbatim>\<open>REMOTE_JSON_FILE_NAME\<close>, the answer of an archive host to a GET, and
  \<^verbatim>\<open>os.path.abspath\<close> (which depends on the working directory).
\<close>

record env =
  catalog :: json
  respond :: "string \<Rightarrow> response"
  abspath :: "string \<Rightarrow> string"

definition under :: "string \<Rightarrow> string \<Rightarrow> bool" where
  "under p q =
     (q = p \<or> is_prefix (if p \<noteq> [] \<and> last p = CHR ''/'' then p else p @ ''/'') q)"

definition path_exists :: "world \<Rightarrow> string \<Rightarrow> bool" where
  "path_exists w p = (store w p \<noteq> None)"

definition listdir :: "world \<Rightarrow> string \<Rightarrow> error + string list" where
  "listdir w p =
     (case store w p of
        None \<Rightarrow> Inl (FileNotFoundError p)
      | Some (Dir es) \<Rightarrow> Inr (map fst es)
      | Some _ \<Rightarrow> Inl (NotADirectoryError p))"

definition rmtree :: "string \<Rightarrow> world \<Rightarrow> error + world" where
  "rmtree p w =
     (case store w p of
        None \<Rightarrow> Inl (FileNotFoundError p)
      | Some (Dir es) \<Rightarrow> Inr (w\<lparr>store := (\<lambda>q. if under p q then None else store w q)\<rparr>)
      | Some _ \<Rightarrow> Inl (NotADirectoryError p))"

text \<open>\<^verbatim>\<open>os.remove(p)\<close>.\<close>

definition remove_file :: "string \<Rightarrow> world \<Rightarrow> error + world" where
  "remove_file p w =
     (case store w p of
        None \<Rightarrow> Inl (FileNotFoundError p)
      | Some (Dir es) \<Rightarrow> Inl (IsADirectoryError p)
      | Some _ \<Rightarrow> Inr (w\<lparr>store := (store w)(p := None)\<rparr>))"

text \<open>\<^verbatim>\<open>os.makedirs(p)\<close>, with and without \<^verbatim>\<open>exist_ok=True\<close>.\<close>

definition makedirs :: "bool \<Rightarrow> string \<Rightarrow> world \<Rightarrow> error + world" where
  "makedirs exist_ok p w =
     (case store w p of
        None \<Rightarrow> Inr (w\<lparr>store := (store w)(p \<mapsto> Dir [])\<rparr>)
      | Some (Dir es) \<Rightarrow> (if exist_ok then Inr w else Inl (FileExistsError p))
      | Some _ \<Rightarrow> Inl (FileExistsError p))"

text \<open>\<^verbatim>\<open>json.load(open(p))\<close> and \<^verbatim>\<open>json.dump(j, open(p, "w"))\<close>.\<close>

definition load_json :: "world \<Rightarrow> string \<Rightarrow> error + json" where
  "load_json w p =
     (case store w p of
        None \<Rightarrow> Inl (FileNotFoundError p)
      | Some (JsonFile j) \<Rightarrow> Inr j
      | Some (Dir es) \<Rightarrow> Inl (IsADirectoryError p)
      | Some _ \<Rightarrow> Inl JSONDecodeError)"

definition dump_json :: "string \<Rightarrow> json \<Rightarrow> world \<Rightarrow> error + world" where
  "dump_json p j w =
     (case store w p of
        Some (Dir es) \<Rightarrow> Inl (IsADirectoryError p)
      | _ \<Rightarrow> Inr (w\<lparr>store := (store w)(p \<mapsto> JsonFile j)\<rparr>))"

section \<open>\<^verbatim>\<open>LocalIP\<close>: the registry and the dependency manifest\<close>

definition new_LocalIP :: "string \<Rightarrow> string \<Rightarrow> obj" where
  "new_LocalIP ip ipm_iproot = [(''ip'', JStr ip), (''ipm_iproot'', JStr ipm_iproot)]"

text \<open>The loop body of \<^verbatim>\<open>LocalIP.get_info\<close> for one registry entry \<open>val\<close> of bucket \<open>key\<close>.\<close>

definition local_record :: "string \<Rightarrow> string \<Rightarrow> string \<Rightarrow> json \<Rightarrow> obj \<Rightarrow> error + obj" where
  "local_record ip technology key val self =
     (case subscript val ''name'' of
        Inl e \<Rightarrow> Inl e
      | Inr n \<Rightarrow>
          if \<not> py_eq n (JStr ip) then Inr self
          else
            (case subscript val ''technology'' of
               Inl e \<Rightarrow> Inl e
             | Inr t \<Rightarrow>
                 if \<not> py_eq t (JStr technology) then Inr self
                 else
                   chain
                     [assign ''name'' (JStr ip),
                      assign_from ''repo'' val ''repo'',
                      assign_from ''version'' val ''version'',
                      assign_from ''date'' val ''date'',
                      assign_from ''author'' val ''author'',
                      assign_from ''email'' val ''email'',
                      assign ''category'' (JStr key),
                      assign_from ''type'' val ''type'',
                      assign_from ''status'' val ''status'',
                      assign_from ''width'' val ''width'',
                      assign_from ''height'' val ''height'',
                      assign ''technology'' (JStr technology),
                      assign_from ''tag'' val ''tag'',
                      assign_from ''cell_count'' val ''cell_count'',
                      assign_from ''clk_freq'' val ''clk_freq'',
                      assign_from ''license'' val ''license'',
                      assign_from ''ip_root'' val ''ip_root'']
                     self))"

definition local_category :: "string \<Rightarrow> string \<Rightarrow> string \<times> json \<Rightarrow> obj \<Rightarrow> error + obj" where
  "local_category ip technology kv self =
     (case iterate (snd kv) of
        Inl e \<Rightarrow> Inl e
      | Inr vals \<Rightarrow> chain (map (local_record ip technology (fst kv)) vals) self)"

text \<open>
  \<^verbatim>\<open>release_url = f"https://{self.repo}/releases/download/{self.version}/{self.version}.tar.gz"\<close>:
  the two attributes must have been set by a matching entry.
\<close>

definition set_local_release_url :: "obj \<Rightarrow> error + obj" where
  "set_local_release_url self =
     (case attr self ''repo'' of
        Inl e \<Rightarrow> Inl e
      | Inr repo \<Rightarrow>
          (case attr self ''version'' of
             Inl e \<Rightarrow> Inl e
           | Inr v \<Rightarrow>
               (case (py_str repo, py_str v) of
                  (Some r, Some vs) \<Rightarrow>
                    assign ''release_url''
                      (JStr (''https://'' @ r @ ''/releases/download/'' @ vs @ ''/'' @ vs @ ''.tar.gz''))
                      self
                | _ \<Rightarrow> Inl Unmodelled)))"

definition LocalIP_get_info :: "world \<Rightarrow> string \<Rightarrow> string \<Rightarrow> string \<Rightarrow> obj \<Rightarrow> error + obj" where
  "LocalIP_get_info w ipm_iproot ip technology self =
     (case load_json w (path_join ipm_iproot LOCAL_JSON_FILE_NAME) of
        Inl e \<Rightarrow> Inl e
      | Inr data \<Rightarrow>
          (case items data of
             Inl e \<Rightarrow> Inl e
           | Inr kvs \<Rightarrow>
               chain [chain (map (local_category ip technology) kvs), set_local_release_url] self))"

text \<open>
  \<^verbatim>\<open>xs.remove(x)\<close> for an \<open>x\<close> taken from \<open>xs\<close>: the first element that is \<open>x\<close> or
  equals it goes.
\<close>

fun py_remove :: "json \<Rightarrow> json list \<Rightarrow> json list" where
  "py_remove x [] = []"
| "py_remove x (y # ys) = (if y = x \<or> py_eq y x then ys else y # py_remove x ys)"

text \<open>
  \<^verbatim>\<open>for ips in xs: if m(ips): xs.remove(ips)\<close>. The list iterator keeps an index into
  the list it walks, so the loop looks at position \<open>i\<close> of the list as it is now.
\<close>

function remove_while_iterating ::
  "(json \<Rightarrow> error + bool) \<Rightarrow> nat \<Rightarrow> json list \<Rightarrow> error + json list" where
  "remove_while_iterating m i xs =
     (if i < length xs then
        (case m (xs ! i) of
           Inl e \<Rightarrow> Inl e
         | Inr b \<Rightarrow> remove_while_iterating m (Suc i) (if b then py_remove (xs ! i) xs else xs))
      else Inr xs)"
  by pat_completeness auto
termination
proof (relation "measure (\<lambda>(m, i, xs). length xs - i)")
  show "wf (measure (\<lambda>(m, i, xs). length xs - i))" by simp
next
  fix m :: "json \<Rightarrow> error + bool" and i :: nat and xs :: "json list" and b :: bool
  assume "i < length xs"
  moreover have "length (py_remove x xs) \<le> length xs" for x
    by (induction xs) auto
  ultimately show "((m, Suc i, if b then py_remove (xs ! i) xs else xs), (m, i, xs))
      \<in> measure (\<lambda>(m, i, xs). length xs - i)"
    using diff_less_mono2 [of i "length xs" "Suc i"]
      diff_le_mono [of "length (py_remove (xs ! i) xs)" "length xs" "Suc i"]
    by (auto split: if_splits)
qed

text \<open>
  The loop over a value that \<^verbatim>\<open>json.load\<close> returned: only a list has \<^verbatim>\<open>remove\<close>,
  and the elements of a dict or a string are strings, which \<open>m\<close> cannot subscript by name.
\<close>

definition remove_entries :: "(json \<Rightarrow> error + bool) \<Rightarrow> json \<Rightarrow> error + json" where
  "remove_entries m x =
     (case x of
        JArr xs \<Rightarrow>
          (case remove_while_iterating m 0 xs of Inl e \<Rightarrow> Inl e | Inr ys \<Rightarrow> Inr (JArr ys))
      | _ \<Rightarrow>
          (case iterate x of
             Inl e \<Rightarrow> Inl e
           | Inr ys \<Rightarrow> if ys = [] then Inr x else Inl TypeError))"

section \<open>Effects: results with the state they leave\<close>

text \<open>
  A function that writes returns its outcome together with the world it leaves, also when
  it raises: what was written before an exception stays written.
\<close>

type_synonym 'a result = "(error + 'a) \<times> world"

definition try_pure :: "error + 'a \<Rightarrow> world \<Rightarrow> ('a \<Rightarrow> 'b result) \<Rightarrow> 'b result" where
  "try_pure x w k = (case x of Inl e \<Rightarrow> (Inl e, w) | Inr a \<Rightarrow> k a)"

definition run :: "(world \<Rightarrow> error + world) \<Rightarrow> world \<Rightarrow> (world \<Rightarrow> 'b result) \<Rightarrow> 'b result" where
  "run f w k = (case f w of Inl e \<Rightarrow> (Inl e, w) | Inr w' \<Rightarrow> k w')"

definition then_do :: "'a result \<Rightarrow> ('a \<Rightarrow> world \<Rightarrow> 'b result) \<Rightarrow> 'b result" where
  "then_do m k = (case m of (Inl e, w) \<Rightarrow> (Inl e, w) | (Inr a, w) \<Rightarrow> k a w)"

text \<open>\<^verbatim>\<open>d[key] = v\<close> and \<^verbatim>\<open>d[key].append(v)\<close> on a loaded document.\<close>

definition set_item :: "json \<Rightarrow> string \<Rightarrow> json \<Rightarrow> error + json" where
  "set_item d key v = (case d of JObj kvs \<Rightarrow> Inr (JObj (dict_set key v kvs)) | _ \<Rightarrow> Inl TypeError)"

definition append_at :: "json \<Rightarrow> string \<Rightarrow> json \<Rightarrow> error + json" where
  "append_at d key v =
     (case subscript d key of
        Inl e \<Rightarrow> Inl e
      | Inr (JArr xs) \<Rightarrow> set_item d key (JArr (xs @ [v]))
      | Inr _ \<Rightarrow> Inl (AttributeError ''append''))"

text \<open>
  \<^verbatim>\<open>LocalIP.add_ip_to_json(ip_info, ip_root)\<close>. A category that is not a string is no key
  of a loaded dict (a list or a dict is not even hashable).
\<close>

definition add_ip_to_json ::
  "env \<Rightarrow> string \<Rightarrow> obj \<Rightarrow> string \<Rightarrow> obj \<Rightarrow> world \<Rightarrow> obj result" where
  "add_ip_to_json ev ipm_iproot ip_info ip_root self w =
     (let local_json_file = path_join ipm_iproot LOCAL_JSON_FILE_NAME in
      try_pure (load_json w local_json_file) w (\<lambda>json_decoded.
      try_pure (dict_del ''release'' ip_info) w (\<lambda>d.
        let self' = dict_set ''ip_root'' (JStr (abspath ev ip_root)) self;
            ip_info_dict = dict_set ''ip_root'' (JStr (abspath ev ip_root)) d
        in
        try_pure (subscript (JObj ip_info_dict) ''category'') w (\<lambda>cat.
        try_pure
          (case cat of
             JStr c \<Rightarrow> append_at json_decoded c (JObj ip_info_dict)
           | JArr xs \<Rightarrow> Inl TypeError
           | JObj kvs \<Rightarrow> Inl TypeError
           | _ \<Rightarrow>
               (case json_decoded of
                  JObj kvs \<Rightarrow> Inl (KeyError (case py_str cat of None \<Rightarrow> [] | Some c \<Rightarrow> c))
                | JArr xs \<Rightarrow> Inl Unmodelled
                | _ \<Rightarrow> Inl TypeError))
          w (\<lambda>json_decoded'.
        run (dump_json local_json_file json_decoded') w (\<lambda>w'. (Inr self', w')))))))"

text \<open>
  \<^verbatim>\<open>ips['name'] == ip_info_dict['name'] and ips['ip_root'] == self.ip_root\<close>, where
  \<^verbatim>\<open>ip_info_dict\<close> is the copy of the attributes of \<open>self\<close>.
\<close>

definition registry_entry_matches :: "obj \<Rightarrow> json \<Rightarrow> error + bool" where
  "registry_entry_matches self ips =
     (case subscript ips ''name'' of
        Inl e \<Rightarrow> Inl e
      | Inr n \<Rightarrow>
          (case subscript (JObj self) ''name'' of
             Inl e \<Rightarrow> Inl e
           | Inr name \<Rightarrow>
               if \<not> py_eq n name then Inr False
               else
                 (case subscript ips ''ip_root'' of
                    Inl e \<Rightarrow> Inl e
                  | Inr r \<Rightarrow>
                      (case attr self ''ip_root'' of
                         Inl e \<Rightarrow> Inl e
                       | Inr root \<Rightarrow> Inr (py_eq r root)))))"

text \<open>\<^verbatim>\<open>ips['name'] == ip_info_dict['name']\<close>\<close>

definition deps_entry_matches :: "obj \<Rightarrow> json \<Rightarrow> error + bool" where
  "deps_entry_matches self ips =
     (case subscript ips ''name'' of
        Inl e \<Rightarrow> Inl e
      | Inr n \<Rightarrow>
          (case subscript (JObj self) ''name'' of
             Inl e \<Rightarrow> Inl e
           | Inr name \<Rightarrow> Inr (py_eq n name)))"

text \<open>
  \<^verbatim>\<open>LocalIP.remove_ip_from_json()\<close>: \<^verbatim>\<open>self.get_info()\<close> runs with its default
  technology \<^verbatim>\<open>"sky130"\<close>; the bucket searched is the category it found, the root
  compared is the root it found.
\<close>

definition remove_ip_from_json :: "string \<Rightarrow> string \<Rightarrow> obj \<Rightarrow> world \<Rightarrow> obj result" where
  "remove_ip_from_json ipm_iproot ip self w =
     (let json_file = path_join ipm_iproot LOCAL_JSON_FILE_NAME in
      try_pure (load_json w json_file) w (\<lambda>json_decoded.
      try_pure (LocalIP_get_info w ipm_iproot ip ''sky130'' self) w (\<lambda>self'.
      try_pure (subscript (JObj self') ''category'') w (\<lambda>cat.
      try_pure (case cat of JStr c \<Rightarrow> Inr c | _ \<Rightarrow> Inl TypeError) w (\<lambda>c.
      try_pure (subscript json_decoded c) w (\<lambda>ip_category.
      try_pure (remove_entries (registry_entry_matches self') ip_category) w (\<lambda>ip_category'.
      try_pure (set_item json_decoded c ip_category') w (\<lambda>json_decoded'.
      run (dump_json json_file json_decoded') w (\<lambda>w'. (Inr self', w'))))))))))"

text \<open>\<^verbatim>\<open>if deps_file: ... else: os.path.join(self.ip_root, DEPENDENCIES_FILE_NAME)\<close>\<close>

definition deps_path :: "string option \<Rightarrow> obj \<Rightarrow> error + string" where
  "deps_path deps_file self =
     (if deps_file \<noteq> None \<and> deps_file \<noteq> Some [] then
        Inr (path_join (the deps_file) DEPENDENCIES_FILE_NAME)
      else
        (case attr self ''ip_root'' of
           Inl e \<Rightarrow> Inl e
         | Inr (JStr r) \<Rightarrow> Inr (path_join r DEPENDENCIES_FILE_NAME)
         | Inr _ \<Rightarrow> Inl TypeError))"

text \<open>\<^verbatim>\<open>LocalIP.remove_from_deps(deps_file)\<close>\<close>

definition remove_from_deps :: "string option \<Rightarrow> obj \<Rightarrow> world \<Rightarrow> unit result" where
  "remove_from_deps deps_file self w =
     try_pure (deps_path deps_file self) w (\<lambda>json_file.
     try_pure (load_json w json_file) w (\<lambda>json_decoded.
     try_pure (subscript json_decoded ''IP'') w (\<lambda>ip_category.
     try_pure (remove_entries (deps_entry_matches self) ip_category) w (\<lambda>ip_category'.
     try_pure (set_item json_decoded ''IP'' ip_category') w (\<lambda>json_decoded'.
     run (dump_json json_file json_decoded') w (\<lambda>w'. (Inr (), w')))))))"

text \<open>\<^verbatim>\<open>LocalIP.create_deps(ip_info, deps_file)\<close>\<close>

definition create_deps :: "string option \<Rightarrow> obj \<Rightarrow> obj \<Rightarrow> world \<Rightarrow> unit result" where
  "create_deps deps_file ip_info self w =
     try_pure (deps_path deps_file self) w (\<lambda>local_json_file.
     try_pure
       (if path_exists w local_json_file then load_json w local_json_file
        else Inr (JObj [(''IP'', JArr [])]))
       w (\<lambda>json_decoded.
     try_pure (subscript (JObj ip_info) ''name'') w (\<lambda>name.
     try_pure (subscript (JObj ip_info) ''version'') w (\<lambda>version.
     try_pure (subscript (JObj ip_info) ''technology'') w (\<lambda>technology.
     try_pure
       (append_at json_decoded ''IP''
          (JObj [(''name'', name), (''version'', version), (''technology'', technology)]))
       w (\<lambda>json_decoded'.
     run (dump_json local_json_file json_decoded') w (\<lambda>w'. (Inr (), w'))))))))"

section \<open>Installing and uninstalling\<close>

text \<open>What a function printed last, standing for its console output.\<close>

datatype report =
    Installed
  | AlreadyExists
  | Uninstalled
  | NotFoundAtDir
  | UpToDate
  | NewerVersion
  | Updated
  | NothingReported

text \<open>
  The guard at the head of \<^verbatim>\<open>install_ip\<close>, repeated word for word in the loop of
  \<^verbatim>\<open>install_deps_ip\<close>. \<open>False\<close>: the function printed that a non-empty folder exists
  and returned.
\<close>

definition clear_destination ::
  "string \<Rightarrow> string \<Rightarrow> bool \<Rightarrow> string \<Rightarrow> string option \<Rightarrow> world \<Rightarrow> bool result" where
  "clear_destination ipm_iproot ip overwrite ip_root deps_file w =
     (let ip_path = path_join ip_root ip in
      if path_exists w ip_path then
        try_pure (listdir w ip_path) w (\<lambda>names.
          if names \<noteq> [] then
            if \<not> overwrite then (Inr False, w)
            else
              then_do (remove_ip_from_json ipm_iproot ip (new_LocalIP ip ipm_iproot) w) (\<lambda>local_ip w1.
              then_do (remove_from_deps deps_file local_ip w1) (\<lambda>u w2.
              run (rmtree ip_path) w2 (\<lambda>w3. (Inr True, w3))))
          else run (rmtree ip_path) w (\<lambda>w1. (Inr True, w1)))
      else (Inr True, w))"

text \<open>\<^verbatim>\<open>with open(tarball_path, "wb") as f: f.write(response.content)\<close>\<close>

definition write_tarball :: "string \<Rightarrow> (string \<times> fnode) list option \<Rightarrow> world \<Rightarrow> error + world" where
  "write_tarball p b w =
     (case store w p of
        Some (Dir es) \<Rightarrow> Inl (IsADirectoryError p)
      | _ \<Rightarrow> Inr (w\<lparr>store := (store w)(p \<mapsto> TarFile b)\<rparr>))"

text \<open>An entry copied into a directory: a new name is added, an old one is replaced.\<close>

fun put_entry :: "string \<times> fnode \<Rightarrow> (string \<times> fnode) list \<Rightarrow> (string \<times> fnode) list" where
  "put_entry e [] = [e]"
| "put_entry e (d # ds) = (if fst d = fst e then e # ds else d # put_entry e ds)"

definition copy_entries :: "(string \<times> fnode) list \<Rightarrow> string \<Rightarrow> world \<Rightarrow> error + world" where
  "copy_entries src p w =
     (case store w p of
        Some (Dir ds) \<Rightarrow> Inr (w\<lparr>store := (store w)(p \<mapsto> Dir (foldl (\<lambda>d e. put_entry e d) ds src))\<rparr>)
      | None \<Rightarrow> Inl (FileNotFoundError p)
      | Some _ \<Rightarrow> Inl (NotADirectoryError p))"

text \<open>\<^verbatim>\<open>tarfile.open(tarball_path)\<close>: the entries of the archive.\<close>

definition open_tarball :: "world \<Rightarrow> string \<Rightarrow> error + (string \<times> fnode) list" where
  "open_tarball w p =
     (case store w p of
        None \<Rightarrow> Inl (FileNotFoundError p)
      | Some (TarFile (Some es)) \<Rightarrow> Inr es
      | Some (Dir es) \<Rightarrow> Inl (IsADirectoryError p)
      | Some _ \<Rightarrow> Inl ReadError)"

text \<open>
  The archive layout: one top entry that is a directory (a source archive of GitHub), whose
  children are the package, or the package's files at the top.
\<close>

definition package_entries :: "(string \<times> fnode) list \<Rightarrow> (string \<times> fnode) list" where
  "package_entries extracted =
     (case extracted of
        [(d, Dir children)] \<Rightarrow> children
      | _ \<Rightarrow> extracted)"

text \<open>Statements that write, in sequence: the first exception ends the run where it stands.\<close>

fun steps :: "(world \<Rightarrow> error + world) list \<Rightarrow> world \<Rightarrow> unit result" where
  "steps [] w = (Inr (), w)"
| "steps (f # fs) w = (case f w of Inl e \<Rightarrow> (Inl e, w) | Inr w' \<Rightarrow> steps fs w')"

text \<open>\<^verbatim>\<open>file = tarfile.open(tarball_path); file.extractall(temp_extract_dir)\<close>\<close>

definition extractall :: "string \<Rightarrow> string \<Rightarrow> world \<Rightarrow> error + world" where
  "extractall tarball_path temp_extract_dir w =
     (case open_tarball w tarball_path of
        Inl e \<Rightarrow> Inl e
      | Inr es \<Rightarrow> copy_entries es temp_extract_dir w)"

text \<open>
  \<^verbatim>\<open>extracted_contents = os.listdir(temp_extract_dir)\<close>, then, in either branch,
  \<^verbatim>\<open>os.makedirs(ip_path, exist_ok=True)\<close> and the copy of the package's entries.
\<close>

definition copy_package :: "string \<Rightarrow> string \<Rightarrow> world \<Rightarrow> error + world" where
  "copy_package temp_extract_dir ip_path w =
     (case store w temp_extract_dir of
        None \<Rightarrow> Inl (FileNotFoundError temp_extract_dir)
      | Some (Dir extracted) \<Rightarrow>
          (case makedirs True ip_path w of
             Inl e \<Rightarrow> Inl e
           | Inr w' \<Rightarrow> copy_entries (package_entries extracted) ip_path w')
      | Some _ \<Rightarrow> Inl (NotADirectoryError temp_extract_dir))"

text \<open>
  From the GET of the release URL to the removal of the scratch directory and the tarball:
  the same statements in \<^verbatim>\<open>install_ip\<close> and in the loop of \<^verbatim>\<open>install_deps_ip\<close>.
  The Authorization header is part of what \<open>respond\<close> stands for.
\<close>

definition download_and_extract :: "env \<Rightarrow> string \<Rightarrow> string \<Rightarrow> obj \<Rightarrow> world \<Rightarrow> unit result" where
  "download_and_extract ev ip ip_root remote_ip w =
     (let ip_path = path_join ip_root ip;
          tarball_path = path_join ip_root (ip @ ''.tar.gz'');
          temp_extract_dir = path_join ip_root (ip @ ''_temp_extract'')
      in
      try_pure (attr remote_ip ''release_url'') w (\<lambda>u.
      try_pure (case u of JStr url \<Rightarrow> Inr url | _ \<Rightarrow> Inl TypeError) w (\<lambda>url.
        let w0 = w\<lparr>downloads := downloads w @ [url]\<rparr>;
            resp = respond ev url
        in
        if status_code resp \<noteq> 200 then (Inl (SystemExit 1), w0)
        else
          steps
            [write_tarball tarball_path (body resp),
             (\<lambda>w. if path_exists w temp_extract_dir then rmtree temp_extract_dir w else Inr w),
             makedirs False temp_extract_dir,
             extractall tarball_path temp_extract_dir,
             copy_package temp_extract_dir ip_path,
             rmtree temp_extract_dir,
             remove_file tarball_path]
            w0)))"

text \<open>\<^verbatim>\<open>install_ip\<close>\<close>

definition install_ip ::
  "env \<Rightarrow> string \<Rightarrow> string \<Rightarrow> bool \<Rightarrow> string \<Rightarrow> string option \<Rightarrow> string \<Rightarrow> string option
     \<Rightarrow> world \<Rightarrow> report result" where
  "install_ip ev ipm_iproot ip overwrite technology version ip_root deps_file w =
     then_do (clear_destination ipm_iproot ip overwrite ip_root deps_file w) (\<lambda>go w1.
       if \<not> go then (Inr AlreadyExists, w1)
       else
         try_pure (RemoteIP_get_info (catalog ev) ip technology version) w1 (\<lambda>remote_ip.
         then_do (download_and_extract ev ip ip_root remote_ip w1) (\<lambda>u w2.
         then_do (add_ip_to_json ev ipm_iproot remote_ip ip_root (new_LocalIP ip ipm_iproot) w2)
           (\<lambda>local_ip w3.
         then_do (create_deps deps_file remote_ip local_ip w3) (\<lambda>u w4. (Inr Installed, w4))))))"

text \<open>\<^verbatim>\<open>uninstall_ip\<close>\<close>

definition uninstall_ip ::
  "string \<Rightarrow> string \<Rightarrow> string \<Rightarrow> string option \<Rightarrow> world \<Rightarrow> report result" where
  "uninstall_ip ipm_iproot ip ip_root deps_file w =
     (let ip_path = path_join ip_root ip in
      if path_exists w ip_path then
        then_do (remove_ip_from_json ipm_iproot ip (new_LocalIP ip ipm_iproot) w) (\<lambda>local_ip w1.
        then_do (remove_from_deps deps_file local_ip w1) (\<lambda>u w2.
        run (rmtree ip_path) w2 (\<lambda>w3. (Inr Uninstalled, w3))))
      else (Inr NotFoundAtDir, w))"

text \<open>
  A name, version or technology read from a manifest or a registry, as the argument the
  callee expects: \<^verbatim>\<open>null\<close> is \<^verbatim>\<open>None\<close>. Other non-strings are outside the model.
\<close>

definition as_version :: "json \<Rightarrow> error + string option" where
  "as_version v = (case v of JNull \<Rightarrow> Inr None | JStr s \<Rightarrow> Inr (Some s) | _ \<Rightarrow> Inl Unmodelled)"

definition as_string :: "json \<Rightarrow> error + string" where
  "as_string v = (case v of JStr s \<Rightarrow> Inr s | _ \<Rightarrow> Inl Unmodelled)"

text \<open>
  One round of the loop of \<^verbatim>\<open>install_deps_ip\<close> for the manifest entry \<open>ip_obj\<close>.
  \<open>False\<close>: the function printed that a non-empty folder exists and returned. Unlike
  \<^verbatim>\<open>install_ip\<close>, the round ends with \<^verbatim>\<open>add_ip_to_json\<close>: \<^verbatim>\<open>create_deps\<close> is not called.
\<close>

definition install_dep_entry ::
  "env \<Rightarrow> string \<Rightarrow> bool \<Rightarrow> string \<Rightarrow> string option \<Rightarrow> json list \<Rightarrow> json \<Rightarrow> world
     \<Rightarrow> bool result" where
  "install_dep_entry ev ipm_iproot overwrite ip_root deps_file IP_list ip_obj w =
     try_pure (subscript ip_obj ''name'') w (\<lambda>ipj.
     try_pure (subscript ip_obj ''version'') w (\<lambda>versionj.
     try_pure (subscript ip_obj ''technology'') w (\<lambda>technologyj.
       if \<not> list_ex (\<lambda>x. py_eq x ipj) IP_list then (Inl (SystemExit 1), w)
       else
         try_pure (case ipj of JStr s \<Rightarrow> Inr s | _ \<Rightarrow> Inl TypeError) w (\<lambda>ip.
         then_do (clear_destination ipm_iproot ip overwrite ip_root deps_file w) (\<lambda>go w1.
           if \<not> go then (Inr False, w1)
           else
             try_pure (as_string technologyj) w1 (\<lambda>technology.
             try_pure (as_version versionj) w1 (\<lambda>version.
             try_pure (RemoteIP_get_info (catalog ev) ip technology version) w1 (\<lambda>remote_ip.
             then_do (download_and_extract ev ip ip_root remote_ip w1) (\<lambda>u w2.
             then_do (add_ip_to_json ev ipm_iproot remote_ip ip_root (new_LocalIP ip ipm_iproot) w2)
               (\<lambda>local_ip w3. (Inr True, w3)))))))))))"

fun install_deps_loop ::
  "env \<Rightarrow> string \<Rightarrow> bool \<Rightarrow> string \<Rightarrow> string option \<Rightarrow> json list \<Rightarrow> json list \<Rightarrow> world
     \<Rightarrow> report result" where
  "install_deps_loop ev ipm_iproot overwrite ip_root deps_file IP_list [] w = (Inr Installed, w)"
| "install_deps_loop ev ipm_iproot overwrite ip_root deps_file IP_list (ip_obj # ips) w =
     (case install_dep_entry ev ipm_iproot overwrite ip_root deps_file IP_list ip_obj w of
        (Inl e, w') \<Rightarrow> (Inl e, w')
      | (Inr go, w') \<Rightarrow>
          if go then install_deps_loop ev ipm_iproot overwrite ip_root deps_file IP_list ips w'
          else (Inr AlreadyExists, w'))"

text \<open>\<^verbatim>\<open>install_deps_ip\<close>\<close>

definition manifest_path :: "string \<Rightarrow> string option \<Rightarrow> string" where
  "manifest_path ip_root deps_file =
     (if deps_file \<noteq> None \<and> deps_file \<noteq> Some [] then
        path_join (the deps_file) DEPENDENCIES_FILE_NAME
      else path_join ip_root DEPENDENCIES_FILE_NAME)"

definition install_deps_ip ::
  "env \<Rightarrow> string \<Rightarrow> bool \<Rightarrow> string \<Rightarrow> string option \<Rightarrow> json list \<Rightarrow> world \<Rightarrow> report result" where
  "install_deps_ip ev ipm_iproot overwrite ip_root deps_file IP_list w =
     (let JSON_FILE = manifest_path ip_root deps_file in
      if \<not> path_exists w JSON_FILE then (Inl (SystemExit 1), w)
      else
        try_pure (load_json w JSON_FILE) w (\<lambda>json_decoded.
        try_pure (subscript json_decoded ''IP'') w (\<lambda>ipsj.
        try_pure (iterate ipsj) w (\<lambda>ips.
          install_deps_loop ev ipm_iproot overwrite ip_root deps_file IP_list ips w))))"

section \<open>Reading a catalog: schema detection, names, listing\<close>

text \<open>Python's truth value of a JSON value.\<close>

definition truthy :: "json \<Rightarrow> bool" where
  "truthy x =
     (case x of
        JNull \<Rightarrow> False
      | JBool b \<Rightarrow> b
      | JNum n \<Rightarrow> n \<noteq> 0
      | JStr s \<Rightarrow> s \<noteq> []
      | JArr xs \<Rightarrow> xs \<noteq> []
      | JObj kvs \<Rightarrow> kvs \<noteq> [])"

text \<open>
  The test that \<^verbatim>\<open>list_IPs\<close>, \<^verbatim>\<open>list_IPs_local\<close>, \<^verbatim>\<open>get_IP_list\<close> and
  \<^verbatim>\<open>get_IP_info\<close> all spell the same way:
  \<^verbatim>\<open>first_key = next(iter(data)) if data else None\<close>,
  \<^verbatim>\<open>first_key and first_key in data and "description" in data[first_key]\<close>.
  The middle conjunct holds of anything \<^verbatim>\<open>iter(data)\<close> has produced. A list indexed by
  its own first element, when that is a number, is outside the model.
\<close>

definition is_new_format :: "json \<Rightarrow> error + bool" where
  "is_new_format data =
     (if \<not> truthy data then Inr False
      else
        (case iterate data of
           Inl e \<Rightarrow> Inl e
         | Inr ks \<Rightarrow>
             (case ks of
                [] \<Rightarrow> Inr False
              | first_key # rest \<Rightarrow>
                  if \<not> truthy first_key then Inr False
                  else
                    (case (data, first_key) of
                       (JObj kvs, JStr k) \<Rightarrow>
                         (case subscript data k of
                            Inl e \<Rightarrow> Inl e
                          | Inr v \<Rightarrow> contains_str ''description'' v)
                     | (JArr xs, JNum n) \<Rightarrow> Inl Unmodelled
                     | (JArr xs, JBool b) \<Rightarrow> Inl Unmodelled
                     | _ \<Rightarrow> Inl TypeError))))"

text \<open>\<^verbatim>\<open>get_IP_list\<close>, on the document it has loaded.\<close>

definition names_of_category :: "string \<times> json \<Rightarrow> json list \<Rightarrow> error + json list" where
  "names_of_category kv IP_list =
     (case iterate (snd kv) of
        Inl e \<Rightarrow> Inl e
      | Inr vals \<Rightarrow>
          chain
            (map (\<lambda>val acc. case subscript val ''name'' of Inl e \<Rightarrow> Inl e | Inr n \<Rightarrow> Inr (acc @ [n]))
               vals)
            IP_list)"

definition IP_list_of :: "json \<Rightarrow> error + json list" where
  "IP_list_of data =
     (case is_new_format data of
        Inl e \<Rightarrow> Inl e
      | Inr True \<Rightarrow> (case keys data of Inl e \<Rightarrow> Inl e | Inr ks \<Rightarrow> Inr (map JStr ks))
      | Inr False \<Rightarrow>
          (case items data of
             Inl e \<Rightarrow> Inl e
           | Inr kvs \<Rightarrow> chain (map names_of_category kvs) []))"

definition get_IP_list :: "env \<Rightarrow> world \<Rightarrow> string \<Rightarrow> bool \<Rightarrow> error + json list" where
  "get_IP_list ev w ipm_iproot remote =
     (if remote then IP_list_of (catalog ev)
      else
        (case load_json w (path_join ipm_iproot LOCAL_JSON_FILE_NAME) of
           Inl e \<Rightarrow> Inl e
         | Inr data \<Rightarrow> IP_list_of data))"








section \<open>\<^verbatim>\<open>check_IP\<close>: checking and updating\<close>

text \<open>
  \<^verbatim>\<open>uninstall_ip\<close> followed by \<^verbatim>\<open>install_ip(overwrite=True)\<close> at the root the registry
  recorded, which is also passed as \<^verbatim>\<open>deps_file\<close>.
\<close>

definition reinstall ::
  "env \<Rightarrow> string \<Rightarrow> string \<Rightarrow> string \<Rightarrow> string option \<Rightarrow> obj \<Rightarrow> world \<Rightarrow> report result" where
  "reinstall ev ipm_iproot ip technology version local_ip w =
     try_pure (attr local_ip ''ip_root'') w (\<lambda>r.
     try_pure (case r of JStr root \<Rightarrow> Inr root | _ \<Rightarrow> Inl TypeError) w (\<lambda>root.
     then_do (uninstall_ip ipm_iproot ip root (Some root) w) (\<lambda>u w1.
     then_do (install_ip ev ipm_iproot ip True technology version root (Some root) w1) (\<lambda>u w2.
       (Inr Updated, w2)))))"

text \<open>The branch of \<^verbatim>\<open>check_IP\<close> for a single IP: the comparison is with the argument \<^verbatim>\<open>version\<close>.\<close>

definition check_single ::
  "env \<Rightarrow> string \<Rightarrow> string \<Rightarrow> bool \<Rightarrow> string option \<Rightarrow> string \<Rightarrow> world \<Rightarrow> report result" where
  "check_single ev ipm_iproot ip update version technology w =
     try_pure (LocalIP_get_info w ipm_iproot ip technology (new_LocalIP ip ipm_iproot)) w (\<lambda>local_ip.
     try_pure (RemoteIP_get_info (catalog ev) ip technology version) w (\<lambda>remote_ip.
     try_pure (attr local_ip ''version'') w (\<lambda>local_version.
       if py_eq local_version (case version of None \<Rightarrow> JNull | Some v \<Rightarrow> JStr v) then (Inr UpToDate, w)
       else if update then reinstall ev ipm_iproot ip technology version local_ip w
       else (Inr NewerVersion, w))))"

text \<open>
  One round of the loop over all installed IPs: the comparison is with the version the
  remote resolved, and only when no version was asked for. The second component is the
  increment of \<^verbatim>\<open>update_counter\<close>.
\<close>

definition check_one_of_all ::
  "env \<Rightarrow> string \<Rightarrow> bool \<Rightarrow> string option \<Rightarrow> string \<Rightarrow> json \<Rightarrow> world \<Rightarrow> (report \<times> nat) result" where
  "check_one_of_all ev ipm_iproot update version technology ipj w =
     try_pure (as_string ipj) w (\<lambda>ip.
     try_pure (LocalIP_get_info w ipm_iproot ip technology (new_LocalIP ip ipm_iproot)) w (\<lambda>local_ip.
     try_pure (RemoteIP_get_info (catalog ev) ip technology version) w (\<lambda>remote_ip.
       if version \<noteq> None then (Inr (NothingReported, 0), w)
       else
         try_pure (attr local_ip ''version'') w (\<lambda>local_version.
         try_pure (attr remote_ip ''version'') w (\<lambda>remote_version.
           if py_eq local_version remote_version then (Inr (UpToDate, 0), w)
           else if update then
             try_pure (as_version remote_version) w (\<lambda>v.
             then_do (reinstall ev ipm_iproot ip technology v local_ip w) (\<lambda>r w1.
               (Inr (Updated, 1), w1)))
           else (Inr (NewerVersion, 1), w))))))"

fun check_all_loop ::
  "env \<Rightarrow> string \<Rightarrow> bool \<Rightarrow> string option \<Rightarrow> string \<Rightarrow> json list \<Rightarrow> report list \<times> nat \<Rightarrow> world
     \<Rightarrow> (report list \<times> nat) result" where
  "check_all_loop ev ipm_iproot update version technology [] acc w = (Inr acc, w)"
| "check_all_loop ev ipm_iproot update version technology (ipj # ips) acc w =
     (case check_one_of_all ev ipm_iproot update version technology ipj w of
        (Inl e, w') \<Rightarrow> (Inl e, w')
      | (Inr (r, n), w') \<Rightarrow>
          check_all_loop ev ipm_iproot update version technology ips (fst acc @ [r], snd acc + n) w')"

text \<open>
  \<^verbatim>\<open>check_IP\<close>: the reports printed, one per IP looked at, and the final
  \<^verbatim>\<open>update_counter\<close>.
\<close>

definition check_IP ::
  "env \<Rightarrow> string \<Rightarrow> string \<Rightarrow> bool \<Rightarrow> string option \<Rightarrow> string \<Rightarrow> world
     \<Rightarrow> (report list \<times> nat) result" where
  "check_IP ev ipm_iproot ip update version technology w =
     (if ip = ''all'' then
        try_pure (get_IP_list ev w ipm_iproot False) w (\<lambda>IP_list.
          check_all_loop ev ipm_iproot update version technology IP_list ([], 0) w)
      else
        then_do (check_single ev ipm_iproot ip update version technology w) (\<lambda>r w1.
          (Inr ([r], 0), w1)))"

section \<open>Example documents\<close>

text \<open>A small catalog in the new format and the same package in the original format.\<close>

definition release_a :: json where
  "release_a =
     JObj [(''date'', JStr ''2024-01-01''), (''type'', JStr ''soft''), (''width'', JNum 0),
       (''height'', JNum 0), (''cell_count'', JNum 100), (''clock_freq_mhz'', JNum 50),
       (''maturity'', JStr ''verified'')]"

definition flat_catalog :: json where
  "flat_catalog =
     JObj [(''widget'',
       JObj [(''description'', JStr ''A widget''), (''repo'', JStr ''github.com/acme/widget''),
         (''author'', JStr ''Acme''), (''email'', JStr ''ip@acme.example''),
         (''category'', JStr ''digital''), (''license'', JStr ''Apache-2.0''),
         (''tags'', JArr [JStr ''comm'']), (''technology'', JStr ''sky130''),
         (''release'', JObj [(''v1.0.0'', release_a), (''v1.2.0'', release_a)])])]"

definition legacy_widget :: json where
  "legacy_widget =
     JObj [(''name'', JStr ''widget''), (''repo'', JStr ''example.org/acme/widget''),
       (''technology'', JStr ''sky130''),
       (''release'',
          JArr [JObj [(''version'', JStr ''v1.0.0''), (''date'', JStr ''2023-01-01'')],
                JObj [(''version'', JStr ''v1.2.0''), (''date'', JStr ''2024-01-01'')]]),
       (''author'', JStr ''Acme''), (''email'', JStr ''ip@acme.example''),
       (''type'', JStr ''soft''), (''status'', JStr ''verified''), (''width'', JNum 0),
       (''height'', JNum 0), (''tag'', JArr [JStr ''comm'']), (''cell_count'', JNum 100),
       (''clk_freq'', JNum 50), (''license'', JStr ''Apache-2.0'')]"

definition legacy_catalog :: json where
  "legacy_catalog = JObj [(''analog'', JArr []), (''digital'', JArr [legacy_widget])]"

text \<open>
  A registry entry as \<^verbatim>\<open>add_ip_to_json\<close> writes it for \<open>widget\<close> of \<open>legacy_catalog\<close>, a
  manifest entry, the registry \<^verbatim>\<open>create_local_JSON\<close> writes with some entries under
  \<^verbatim>\<open>digital\<close>, and an archive with one top directory.
\<close>

definition installed_widget :: "string \<Rightarrow> string \<Rightarrow> json" where
  "installed_widget root version =
     JObj [(''ip'', JStr ''widget''), (''name'', JStr ''widget''),
       (''repo'', JStr ''example.org/acme/widget''), (''version'', JStr version),
       (''date'', JStr ''2024-01-01''), (''author'', JStr ''Acme''),
       (''email'', JStr ''ip@acme.example''), (''category'', JStr ''digital''),
       (''type'', JStr ''soft''), (''status'', JStr ''verified''), (''width'', JNum 0),
       (''height'', JNum 0), (''technology'', JStr ''sky130''), (''tag'', JArr [JStr ''comm'']),
       (''cell_count'', JNum 100), (''clk_freq'', JNum 50), (''license'', JStr ''Apache-2.0''),
       (''possible_urls'',
          JArr [JStr (''https://example.org/acme/widget/releases/download/'' @ version @ ''/''
                  @ version @ ''.tar.gz'')]),
       (''release_url'',
          JStr (''https://example.org/acme/widget/releases/download/'' @ version @ ''/''
                  @ version @ ''.tar.gz'')),
       (''ip_root'', JStr root)]"

definition widget_dep :: json where
  "widget_dep =
     JObj [(''name'', JStr ''widget''), (''version'', JStr ''v1.2.0''),
       (''technology'', JStr ''sky130'')]"

definition registry_with :: "json list \<Rightarrow> json" where
  "registry_with entries =
     JObj [(''analog'', JArr []), (''comm'', JArr []), (''dataconv'', JArr []),
       (''digital'', JArr entries), (''technolgy'', JArr [])]"

definition widget_archive :: "(string \<times> fnode) list" where
  "widget_archive = [(''widget-v1.2.0'', Dir [(''readme.md'', File ''widget''), (''hdl'', Dir [])])]"

definition widget_tree :: fnode where
  "widget_tree = Dir [(''readme.md'', File ''widget''), (''hdl'', Dir [])]"

text \<open>The remote: \<open>legacy_catalog\<close>, one archive, and paths that are absolute already.\<close>

definition env0 :: env where
  "env0 =
     \<lparr>catalog = legacy_catalog,
      respond = (\<lambda>url.
        if url = ''https://example.org/acme/widget/releases/download/v1.2.0/v1.2.0.tar.gz''
        then \<lparr>status_code = 200, body = Some widget_archive\<rparr>
        else \<lparr>status_code = 404, body = None\<rparr>),
      abspath = (\<lambda>p. p)\<rparr>"


text \<open>\<open>widget v1.2.0\<close> installed under \<^verbatim>\<open>/ips\<close>.\<close>

definition world_installed :: world where
  "world_installed =
     \<lparr>store =
        [''/ipm/Installed_IPs.json'' \<mapsto> JsonFile (registry_with [installed_widget ''/ips'' ''v1.2.0'']),
         ''/ips/dependencies.json'' \<mapsto> JsonFile (JObj [(''IP'', JArr [widget_dep])]),
         ''/ips/widget'' \<mapsto> widget_tree],
      downloads = []\<rparr>"

text \<open>\<open>widget v1.0.0\<close> installed under \<^verbatim>\<open>/a\<close> and then under \<^verbatim>\<open>/b\<close>.\<close>

definition world_two_roots :: world where
  "world_two_roots =
     \<lparr>store =
        [''/ipm/Installed_IPs.json'' \<mapsto>
           JsonFile (registry_with [installed_widget ''/a'' ''v1.0.0'', installed_widget ''/b'' ''v1.0.0'']),
         ''/a/dependencies.json'' \<mapsto> JsonFile (JObj [(''IP'', JArr [widget_dep])]),
         ''/b/dependencies.json'' \<mapsto> JsonFile (JObj [(''IP'', JArr [widget_dep])]),
         ''/a/widget'' \<mapsto> widget_tree,
         ''/b/widget'' \<mapsto> widget_tree],
      downloads = []\<rparr>"

text \<open>
  \<open>widget\<close> registered twice for the root \<^verbatim>\<open>/ips\<close> (installed, its folder deleted by hand,
  installed again).
\<close>

definition world_twice :: world where
  "world_twice =
     \<lparr>store =
        [''/ipm/Installed_IPs.json'' \<mapsto>
           JsonFile (registry_with [installed_widget ''/ips'' ''v1.0.0'', installed_widget ''/ips'' ''v1.2.0'']),
         ''/ips/dependencies.json'' \<mapsto> JsonFile (JObj [(''IP'', JArr [widget_dep, widget_dep])]),
         ''/ips/widget'' \<mapsto> widget_tree],
      downloads = []\<rparr>"

text \<open>A manifest that lists \<open>widget\<close> twice, nothing installed.\<close>

definition world_manifest :: world where
  "world_manifest =
     \<lparr>store =
        [''/ipm/Installed_IPs.json'' \<mapsto> JsonFile (registry_with []),
         ''/ips/dependencies.json'' \<mapsto> JsonFile (JObj [(''IP'', JArr [widget_dep, widget_dep])])],
      downloads = []\<rparr>"

section \<open>Shapes of catalog documents\<close>




text \<open>A record of the original format that is the package \<open>ip\<close> for \<open>technology\<close>.\<close>

definition legacy_matches :: "string \<Rightarrow> string \<Rightarrow> json \<Rightarrow> bool" where
  "legacy_matches ip technology r =
     (case subscript r ''name'' of
        Inl e \<Rightarrow> False
      | Inr n \<Rightarrow> py_eq n (JStr ip) \<and>
          (case subscript r ''technology'' of Inl e \<Rightarrow> False | Inr t \<Rightarrow> py_eq t (JStr technology)))"




text \<open>
  A path that an install of \<open>ip\<close> under \<open>ip_root\<close> does not write or remove: it is neither
  the package folder, the scratch directory or something below them, nor the tarball.
\<close>

definition outside_package :: "string \<Rightarrow> string \<Rightarrow> string \<Rightarrow> bool" where
  "outside_package ip_root ip q =
     (\<not> under (path_join ip_root ip) q \<and>
      \<not> under (path_join ip_root (ip @ ''_temp_extract'')) q \<and>
      q \<noteq> path_join ip_root (ip @ ''.tar.gz''))"

text \<open>
  What \<^verbatim>\<open>RemoteIP.get_info\<close> leaves on the instance when it returns: the name and the
  technology asked for, a repository location that is a string, a version that can be
  formatted, and the other attributes that \<^verbatim>\<open>LocalIP\<close> will later read back from the
  registry. \<open>partly_resolved\<close> is what holds between two records of the original format.
\<close>

definition has_attrs :: "string list \<Rightarrow> obj \<Rightarrow> bool" where
  "has_attrs ks self = list_all (\<lambda>k. map_of self k \<noteq> None) ks"

definition resolved :: "string \<Rightarrow> string \<Rightarrow> obj \<Rightarrow> bool" where
  "resolved ip technology self =
     (map_of self ''name'' = Some (JStr ip) \<and>
      map_of self ''technology'' = Some (JStr technology) \<and>
      (\<exists>r. map_of self ''repo'' = Some (JStr r)) \<and>
      (\<exists>v s. map_of self ''version'' = Some v \<and> py_str v = Some s) \<and>
      has_attrs [''release'', ''category'', ''date'', ''author'', ''email'', ''type'', ''status'',
        ''width'', ''height'', ''tag'', ''cell_count'', ''clk_freq'', ''license''] self)"

definition partly_resolved :: "string \<Rightarrow> string \<Rightarrow> obj \<Rightarrow> bool" where
  "partly_resolved ip technology self =
     ((map_of self ''repo'' \<noteq> None \<longrightarrow>
         map_of self ''name'' = Some (JStr ip) \<and>
         map_of self ''technology'' = Some (JStr technology) \<and>
         has_attrs [''release'', ''category'', ''author'', ''email'', ''type'', ''status'',
           ''width'', ''height'', ''tag'', ''cell_count'', ''clk_freq'', ''license''] self) \<and>
      (map_of self ''version'' \<noteq> None \<longrightarrow> map_of self ''date'' \<noteq> None))"






section \<open>Properties\<close>

subsection \<open>Sequencing and attribute lookup\<close>

lemma chain_append:
  "chain (fs @ gs) s = (case chain fs s of Inl e \<Rightarrow> Inl e | Inr s' \<Rightarrow> chain gs s')"
  by (induction fs arbitrary: s) (auto split: sum.splits)

lemma map_of_dict_set:
  "map_of (dict_set k v kvs) k' = (if k' = k then Some v else map_of kvs k')"
  by (induction kvs) auto

lemma attr_dict_set:
  "attr (dict_set k v self) a = (if a = k then Inr v else attr self a)"
  by (simp add: attr_def map_of_dict_set)

subsection \<open>The installer's URL convention\<close>

lemma set_release_url_result:
  assumes "set_release_url s = Inr self"
  shows "\<exists>repo vj v. attr self ''repo'' = Inr (JStr repo) \<and> attr self ''version'' = Inr vj \<and>
           py_str vj = Some v \<and> attr self ''release_url'' = Inr (JStr (release_url_for repo v))"
  using assms
  by (auto simp: set_release_url_def assign_def attr_dict_set
      split: sum.splits json.splits option.splits)

text \<open>
  Claim C1, as the code has it. Whenever \<^verbatim>\<open>RemoteIP.get_info\<close> resolves a package, the
  release URL it stores is built from the resolved repository location and version: the
  archive form \<^verbatim>\<open>https://<repo>/archive/refs/tags/<last segment>-<version>.tar.gz\<close> when the
  location has at least three \<^verbatim>\<open>/\<close>-separated segments and contains the text
  \<^verbatim>\<open>github.com\<close>, the form \<^verbatim>\<open>https://<repo>/releases/download/<version>/<version>.tar.gz\<close>
  otherwise. The two literal cases of the specification come out as written.
\<close>

theorem installer_release_url:
  "(RemoteIP_get_info data ip technology version = Inr self \<longrightarrow>
      (\<exists>repo vj v. attr self ''repo'' = Inr (JStr repo) \<and> attr self ''version'' = Inr vj \<and>
         py_str vj = Some v \<and>
         attr self ''release_url'' = Inr (JStr
           (if 3 \<le> length (split_on CHR ''/'' repo) \<and> is_substring ''github.com'' repo
            then ''https://'' @ repo @ ''/archive/refs/tags/'' @ last (split_on CHR ''/'' repo)
                   @ ''-'' @ v @ ''.tar.gz''
            else ''https://'' @ repo @ ''/releases/download/'' @ v @ ''/'' @ v @ ''.tar.gz''))))
   \<and> release_url_for ''github.com/acme/widget'' ''v1.2.0'' =
       ''https://github.com/acme/widget/archive/refs/tags/widget-v1.2.0.tar.gz''
   \<and> release_url_for ''example.org/acme/widget'' ''v1.2.0'' =
       ''https://example.org/acme/widget/releases/download/v1.2.0/v1.2.0.tar.gz''"
proof (intro conjI impI)
  assume "RemoteIP_get_info data ip technology version = Inr self"
  then obtain s where "set_release_url s = Inr self"
    by (auto simp: RemoteIP_get_info_def split: sum.splits if_splits)
  from set_release_url_result [OF this]
  show "\<exists>repo vj v. attr self ''repo'' = Inr (JStr repo) \<and> attr self ''version'' = Inr vj \<and>
         py_str vj = Some v \<and>
         attr self ''release_url'' = Inr (JStr
           (if 3 \<le> length (split_on CHR ''/'' repo) \<and> is_substring ''github.com'' repo
            then ''https://'' @ repo @ ''/archive/refs/tags/'' @ last (split_on CHR ''/'' repo)
                   @ ''-'' @ v @ ''.tar.gz''
            else ''https://'' @ repo @ ''/releases/download/'' @ v @ ''/'' @ v @ ''.tar.gz''))"
    by (simp add: release_url_for_def Let_def)
next
  show "release_url_for ''github.com/acme/widget'' ''v1.2.0'' =
       ''https://github.com/acme/widget/archive/refs/tags/widget-v1.2.0.tar.gz''"
    by (simp add: release_url_for_def)
next
  show "release_url_for ''example.org/acme/widget'' ''v1.2.0'' =
       ''https://example.org/acme/widget/releases/download/v1.2.0/v1.2.0.tar.gz''"
    by (simp add: release_url_for_def)
qed

text \<open>The theorem at the two example catalogs: the latest release of \<open>widget\<close> in each.\<close>

theorem installer_release_url_witness:
  "(\<exists>self. RemoteIP_get_info flat_catalog ''widget'' ''sky130'' None = Inr self \<and>
      attr self ''release_url'' =
        Inr (JStr ''https://github.com/acme/widget/archive/refs/tags/widget-v1.2.0.tar.gz''))
   \<and> (\<exists>self. RemoteIP_get_info legacy_catalog ''widget'' ''sky130'' (Some ''v1.0.0'') = Inr self \<and>
      attr self ''release_url'' =
        Inr (JStr ''https://example.org/acme/widget/releases/download/v1.0.0/v1.0.0.tar.gz''))"
proof (intro conjI)
  have "case RemoteIP_get_info flat_catalog ''widget'' ''sky130'' None of
          Inl e \<Rightarrow> False
        | Inr self \<Rightarrow> attr self ''repo'' = Inr (JStr ''github.com/acme/widget'') \<and>
            attr self ''version'' = Inr (JStr ''v1.2.0'')"
    by code_simp
  then obtain self where r: "RemoteIP_get_info flat_catalog ''widget'' ''sky130'' None = Inr self"
    and a: "attr self ''repo'' = Inr (JStr ''github.com/acme/widget'')"
           "attr self ''version'' = Inr (JStr ''v1.2.0'')"
    by (auto split: sum.splits)
  from installer_release_url [of flat_catalog "''widget''" "''sky130''" None self] r a
  have "attr self ''release_url'' =
      Inr (JStr ''https://github.com/acme/widget/archive/refs/tags/widget-v1.2.0.tar.gz'')"
    by (auto simp: py_str_def)
  with r show "\<exists>self. RemoteIP_get_info flat_catalog ''widget'' ''sky130'' None = Inr self \<and>
      attr self ''release_url'' =
        Inr (JStr ''https://github.com/acme/widget/archive/refs/tags/widget-v1.2.0.tar.gz'')"
    by blast
next
  have "case RemoteIP_get_info legacy_catalog ''widget'' ''sky130'' (Some ''v1.0.0'') of
          Inl e \<Rightarrow> False
        | Inr self \<Rightarrow> attr self ''repo'' = Inr (JStr ''example.org/acme/widget'') \<and>
            attr self ''version'' = Inr (JStr ''v1.0.0'')"
    by code_simp
  then obtain self where r: "RemoteIP_get_info legacy_catalog ''widget'' ''sky130'' (Some ''v1.0.0'') = Inr self"
    and a: "attr self ''repo'' = Inr (JStr ''example.org/acme/widget'')"
           "attr self ''version'' = Inr (JStr ''v1.0.0'')"
    by (auto split: sum.splits)
  from installer_release_url [of legacy_catalog "''widget''" "''sky130''" "Some ''v1.0.0''" self] r a
  have "attr self ''release_url'' =
      Inr (JStr ''https://example.org/acme/widget/releases/download/v1.0.0/v1.0.0.tar.gz'')"
    by (auto simp: py_str_def)
  with r show "\<exists>self. RemoteIP_get_info legacy_catalog ''widget'' ''sky130'' (Some ''v1.0.0'') = Inr self \<and>
      attr self ''release_url'' =
        Inr (JStr ''https://example.org/acme/widget/releases/download/v1.0.0/v1.0.0.tar.gz'')"
    by blast
qed

text \<open>
  Claim C1 as stated fails: a location on the host \<^verbatim>\<open>github.com\<close> with fewer than three
  segments gets the release-download form, and a location on another host that mentions
  \<^verbatim>\<open>github.com\<close> in its path gets the archive form.
\<close>

theorem installer_release_url_counterexample:
  "repo_host ''github.com/widget'' = ''github.com''
   \<and> release_url_for ''github.com/widget'' ''v1.2.0''
       = ''https://github.com/widget/releases/download/v1.2.0/v1.2.0.tar.gz''
   \<and> release_url_for ''github.com/widget'' ''v1.2.0''
       \<noteq> ''https://github.com/widget/archive/refs/tags/widget-v1.2.0.tar.gz''
   \<and> repo_host ''gitlab.com/acme/github.com-widget'' \<noteq> ''github.com''
   \<and> release_url_for ''gitlab.com/acme/github.com-widget'' ''v1.2.0''
       = ''https://gitlab.com/acme/github.com-widget/archive/refs/tags/github.com-widget-v1.2.0.tar.gz''
   \<and> release_url_for ''gitlab.com/acme/github.com-widget'' ''v1.2.0''
       \<noteq> ''https://gitlab.com/acme/github.com-widget/releases/download/v1.2.0/v1.2.0.tar.gz''"
  by (simp add: release_url_for_def repo_host_def)

subsection \<open>Uninstalling what is not there\<close>

text \<open>
  Claim C10. When the directory \<^verbatim>\<open>ip_root/ip\<close> does not exist, \<^verbatim>\<open>uninstall_ip\<close> only
  reports that the IP was not found there: the state it leaves is the state it found, so
  the registry and the dependency manifest are unchanged.
\<close>

theorem uninstall_missing_directory:
  "\<not> path_exists w (path_join ip_root ip) \<Longrightarrow>
     uninstall_ip ipm_iproot ip ip_root deps_file w = (Inr NotFoundAtDir, w)"
  by (simp add: uninstall_ip_def)

theorem uninstall_missing_directory_witness:
  "uninstall_ip ''/ipm'' ''widget'' ''/elsewhere'' None world_installed
     = (Inr NotFoundAtDir, world_installed)
   \<and> store world_installed ''/ipm/Installed_IPs.json'' \<noteq> None
   \<and> store world_installed ''/ips/dependencies.json'' \<noteq> None"
  using uninstall_missing_directory [of world_installed "''/elsewhere''" "''widget''" "''/ipm''" None]
  by (simp add: path_exists_def path_join_def world_installed_def)

subsection \<open>The bulk installer stops at an occupied destination\<close>

lemma install_deps_loop_append:
  "install_deps_loop ev ipm_iproot overwrite ip_root deps_file IP_list (xs @ ys) w =
     (case install_deps_loop ev ipm_iproot overwrite ip_root deps_file IP_list xs w of
        (Inr Installed, w') \<Rightarrow> install_deps_loop ev ipm_iproot overwrite ip_root deps_file IP_list ys w'
      | r \<Rightarrow> r)"
proof (induction xs arbitrary: w)
  case Nil
  show ?case by simp
next
  case (Cons x xs)
  show ?case
  proof (cases "install_dep_entry ev ipm_iproot overwrite ip_root deps_file IP_list x w")
    case (Pair r w')
    then show ?thesis
      using Cons.IH [of w']
      by (cases r) (auto split: prod.splits sum.splits report.splits)
  qed
qed

lemma install_dep_entry_existing:
  assumes "subscript e ''name'' = Inr (JStr ip)" "subscript e ''version'' = Inr v"
    "subscript e ''technology'' = Inr t"
    and "list_ex (\<lambda>x. py_eq x (JStr ip)) IP_list"
    and "store w (path_join ip_root ip) = Some (Dir ds)" "ds \<noteq> []"
  shows "install_dep_entry ev ipm_iproot False ip_root deps_file IP_list e w = (Inr False, w)"
  using assms
  by (simp add: install_dep_entry_def try_pure_def then_do_def clear_destination_def
      path_exists_def listdir_def)

text \<open>
  Claim C9. Let the manifest list the entries \<open>es @ e # rest\<close>, let the rounds for \<open>es\<close> run
  to their end and leave the state \<open>w1\<close>, and let the destination of \<open>e\<close> be a non-empty
  directory in \<open>w1\<close>. With overwrite unset, \<^verbatim>\<open>install_deps_ip\<close> then returns with exactly the
  state \<open>w1\<close>: nothing is downloaded, installed or recorded for \<open>e\<close> or for \<open>rest\<close>, and what
  the rounds for \<open>es\<close> installed stays.
\<close>

theorem bulk_install_returns_at_existing_folder:
  assumes manifest: "path_exists w (manifest_path ip_root deps_file)"
      "load_json w (manifest_path ip_root deps_file) = Inr manifest"
      "subscript manifest ''IP'' = Inr (JArr (es @ e # rest))"
    and earlier:
      "install_deps_loop ev ipm_iproot False ip_root deps_file IP_list es w = (Inr Installed, w1)"
    and entry: "subscript e ''name'' = Inr (JStr ip)" "subscript e ''version'' = Inr v"
      "subscript e ''technology'' = Inr t"
    and listed: "list_ex (\<lambda>x. py_eq x (JStr ip)) IP_list"
    and folder: "store w1 (path_join ip_root ip) = Some (Dir ds)" "ds \<noteq> []"
  shows "install_deps_ip ev ipm_iproot False ip_root deps_file IP_list w = (Inr AlreadyExists, w1)"
proof -
  have "install_deps_loop ev ipm_iproot False ip_root deps_file IP_list (es @ e # rest) w
      = install_deps_loop ev ipm_iproot False ip_root deps_file IP_list (e # rest) w1"
    by (simp add: install_deps_loop_append earlier)
  also have "\<dots> = (Inr AlreadyExists, w1)"
    by (simp add: install_dep_entry_existing [OF entry listed folder])
  finally show ?thesis
    using manifest by (simp add: install_deps_ip_def try_pure_def iterate_def)
qed

text \<open>
  The theorem where the manifest lists \<open>widget\<close> twice: the first round installs it (one
  download), the second finds its folder and the function returns.
\<close>

theorem bulk_install_returns_at_existing_folder_witness:
  "\<exists>w1. install_deps_ip env0 ''/ipm'' False ''/ips'' None [JStr ''widget''] world_manifest
           = (Inr AlreadyExists, w1)
      \<and> store w1 ''/ips/widget'' = Some widget_tree
      \<and> downloads w1 = [''https://example.org/acme/widget/releases/download/v1.2.0/v1.2.0.tar.gz'']"
proof -
  have "case install_deps_loop env0 ''/ipm'' False ''/ips'' None [JStr ''widget''] [widget_dep]
            world_manifest of
          (Inr Installed, w1) \<Rightarrow>
            store w1 ''/ips/widget'' = Some widget_tree \<and>
            downloads w1 = [''https://example.org/acme/widget/releases/download/v1.2.0/v1.2.0.tar.gz'']
        | _ \<Rightarrow> False"
    by code_simp
  then obtain w1 where
    earlier: "install_deps_loop env0 ''/ipm'' False ''/ips'' None [JStr ''widget''] [widget_dep]
        world_manifest = (Inr Installed, w1)"
    and tree: "store w1 ''/ips/widget'' = Some widget_tree"
    and log: "downloads w1 = [''https://example.org/acme/widget/releases/download/v1.2.0/v1.2.0.tar.gz'']"
    by (auto split: prod.splits sum.splits report.splits)
  have p: "manifest_path ''/ips'' None = ''/ips/dependencies.json''"
    by (simp add: manifest_path_def path_join_def DEPENDENCIES_FILE_NAME_def)
  have m: "path_exists world_manifest (manifest_path ''/ips'' None)"
    "load_json world_manifest (manifest_path ''/ips'' None)
       = Inr (JObj [(''IP'', JArr [widget_dep, widget_dep])])"
    "subscript (JObj [(''IP'', JArr [widget_dep, widget_dep])]) ''IP''
       = Inr (JArr ([widget_dep] @ widget_dep # []))"
    by (simp_all add: p path_exists_def load_json_def world_manifest_def subscript_def)
  have e: "subscript widget_dep ''name'' = Inr (JStr ''widget'')"
    "subscript widget_dep ''version'' = Inr (JStr ''v1.2.0'')"
    "subscript widget_dep ''technology'' = Inr (JStr ''sky130'')"
    by (simp_all add: widget_dep_def subscript_def)
  have l: "list_ex (\<lambda>x. py_eq x (JStr ''widget'')) [JStr ''widget'']"
    by simp
  have f: "store w1 (path_join ''/ips'' ''widget'') = Some (Dir [(''readme.md'', File ''widget''), (''hdl'', Dir [])])"
    "[(''readme.md'', File ''widget''), (''hdl'', Dir [])] \<noteq> []"
    using tree by (simp_all add: path_join_def widget_tree_def)
  from bulk_install_returns_at_existing_folder [OF m earlier e l f] tree log
  show ?thesis by blast
qed

subsection \<open>Evaluations at states the code mishandles\<close>

text \<open>
  Claim C3 at a failing input. \<open>widget v1.2.0\<close> is installed and \<open>v1.2.0\<close> is the version the
  remote resolves. The check of the single IP, called as \<^verbatim>\<open>ipm check\<close> calls it (no
  version), compares the local version with the argument \<^verbatim>\<open>version\<close>, which is
  \<^verbatim>\<open>None\<close>, and reports a newer version; the loop over all IPs compares with the remote
  version and reports the same IP as up to date.
\<close>

theorem check_single_compares_with_argument:
  "(case LocalIP_get_info world_installed ''/ipm'' ''widget'' ''sky130'' (new_LocalIP ''widget'' ''/ipm'') of
      Inr local_ip \<Rightarrow> attr local_ip ''version'' = Inr (JStr ''v1.2.0'')
    | Inl e \<Rightarrow> False)
   \<and> (case RemoteIP_get_info (catalog env0) ''widget'' ''sky130'' None of
      Inr remote_ip \<Rightarrow> attr remote_ip ''version'' = Inr (JStr ''v1.2.0'')
    | Inl e \<Rightarrow> False)
   \<and> fst (check_IP env0 ''/ipm'' ''widget'' False None ''sky130'' world_installed)
       = Inr ([NewerVersion], 0)
   \<and> fst (check_IP env0 ''/ipm'' ''all'' False None ''sky130'' world_installed)
       = Inr ([UpToDate], 0)"
  by code_simp

text \<open>
  Claim C5 at a failing input. \<open>widget\<close> is installed under \<^verbatim>\<open>/a\<close> and under \<^verbatim>\<open>/b\<close>, and
  is installed again under \<^verbatim>\<open>/a\<close> with overwrite set. The registry entry that goes is the
  one of \<^verbatim>\<open>/b\<close> (the root of the last entry of that name), and so does the entry in the
  manifest of \<^verbatim>\<open>/b\<close>; the entry of \<^verbatim>\<open>/a\<close> stays and gets a second one beside it, while
  the folder \<^verbatim>\<open>/b/widget\<close> is still there.
\<close>

theorem overwrite_removes_entry_of_other_root:
  "(case install_ip env0 ''/ipm'' ''widget'' True ''sky130'' None ''/a'' None world_two_roots of
      (Inr Installed, w) \<Rightarrow>
        store w ''/ipm/Installed_IPs.json''
          = Some (JsonFile (registry_with
              [installed_widget ''/a'' ''v1.0.0'', installed_widget ''/a'' ''v1.2.0'']))
        \<and> store w ''/b/dependencies.json'' = Some (JsonFile (JObj [(''IP'', JArr [])]))
        \<and> store w ''/a/dependencies.json''
          = Some (JsonFile (JObj [(''IP'', JArr [widget_dep, widget_dep])]))
        \<and> store w ''/b/widget'' = Some widget_tree
    | _ \<Rightarrow> False)"
  by code_simp

text \<open>
  Claim C6 at a failing input. The registry holds two entries for \<open>widget\<close> at the root
  \<^verbatim>\<open>/ips\<close>, next to each other in one bucket. \<^verbatim>\<open>remove_ip_from_json\<close> removes the first;
  the loop, whose list has shrunk under it, never looks at the second, which stays.
\<close>

theorem remove_skips_adjacent_entry:
  "(case remove_ip_from_json ''/ipm'' ''widget'' (new_LocalIP ''widget'' ''/ipm'') world_twice of
      (Inr self, w) \<Rightarrow>
        attr self ''ip_root'' = Inr (JStr ''/ips'')
        \<and> store w ''/ipm/Installed_IPs.json''
          = Some (JsonFile (registry_with [installed_widget ''/ips'' ''v1.2.0'']))
    | _ \<Rightarrow> False)"
  by code_simp

subsection \<open>A requested version that the record does not list\<close>










subsection \<open>How each reader of a catalog decides the schema\<close>








subsection \<open>Paths and the file store\<close>

lemma is_prefix_length: "is_prefix p q \<Longrightarrow> length p \<le> length q"
  by (induction p q rule: is_prefix.induct) auto

lemma path_join_suffix:
  "\<not> is_prefix ''/'' s \<Longrightarrow> path_join a (b @ s) = path_join a b @ s"
  by (cases b; cases s) (auto simp: path_join_def)

lemma not_under_longer: "s \<noteq> [] \<Longrightarrow> \<not> under (p @ s) p"
  by (auto simp: under_def dest!: is_prefix_length)

lemma under_self: "under p p"
  by (simp add: under_def)

lemma path_join_names_differ:
  "path_join a LOCAL_JSON_FILE_NAME \<noteq> path_join b DEPENDENCIES_FILE_NAME"
proof
  assume eq: "path_join a LOCAL_JSON_FILE_NAME = path_join b DEPENDENCIES_FILE_NAME"
  have "\<exists>x. path_join a LOCAL_JSON_FILE_NAME = x @ ''Installed_IPs.json''"
    by (simp add: path_join_def LOCAL_JSON_FILE_NAME_def)
  then obtain x where x: "path_join a LOCAL_JSON_FILE_NAME = x @ ''Installed_IPs.json''" ..
  have "\<exists>y. path_join b DEPENDENCIES_FILE_NAME = y @ ''dependencies.json''"
    by (simp add: path_join_def DEPENDENCIES_FILE_NAME_def)
  then obtain y where y: "path_join b DEPENDENCIES_FILE_NAME = y @ ''dependencies.json''" ..
  from eq x y have "rev (x @ ''Installed_IPs.json'') ! 6 = rev (y @ ''dependencies.json'') ! 6"
    by simp
  then show False
    by (simp add: nth_append)
qed

lemma run_Inr:
  assumes "run f w k = (Inr r, w')"
  obtains w1 where "f w = Inr w1" "k w1 = (Inr r, w')"
  using assms by (auto simp: run_def split: sum.splits)

lemma try_pure_Inr:
  assumes "try_pure x w k = (Inr r, w')"
  obtains a where "x = Inr a" "k a = (Inr r, w')"
  using assms by (auto simp: try_pure_def split: sum.splits)

lemma then_do_Inr:
  assumes "then_do m k = (Inr r, w')"
  obtains a w1 where "m = (Inr a, w1)" "k a w1 = (Inr r, w')"
  using assms by (auto simp: then_do_def split: sum.splits prod.splits)

lemma steps_Cons_Inr:
  assumes "steps (f # fs) w = (Inr u, w')"
  obtains w1 where "f w = Inr w1" "steps fs w1 = (Inr u, w')"
  using assms by (auto split: sum.splits)

lemma steps_frame:
  assumes "list_all (\<lambda>f. \<forall>w w'. f w = Inr w' \<longrightarrow> store w' q = store w q) fs"
    and "steps fs w = (r, w')"
  shows "store w' q = store w q"
  using assms
  by (induction fs arbitrary: w) (auto split: sum.splits)

lemma rmtree_frame: "rmtree p w = Inr w' \<Longrightarrow> \<not> under p q \<Longrightarrow> store w' q = store w q"
  by (auto simp: rmtree_def split: option.splits fnode.splits)

lemma rmtree_gone: "rmtree p w = Inr w' \<Longrightarrow> under p q \<Longrightarrow> store w' q = None"
  by (auto simp: rmtree_def split: option.splits fnode.splits)

lemma write_tarball_frame: "write_tarball p b w = Inr w' \<Longrightarrow> q \<noteq> p \<Longrightarrow> store w' q = store w q"
  by (auto simp: write_tarball_def split: option.splits fnode.splits)

lemma makedirs_frame: "makedirs ok p w = Inr w' \<Longrightarrow> q \<noteq> p \<Longrightarrow> store w' q = store w q"
  by (auto simp: makedirs_def split: option.splits fnode.splits if_splits)

lemma copy_entries_frame: "copy_entries src p w = Inr w' \<Longrightarrow> q \<noteq> p \<Longrightarrow> store w' q = store w q"
  by (auto simp: copy_entries_def split: option.splits fnode.splits)

lemma copy_entries_dir: "copy_entries src p w = Inr w' \<Longrightarrow> \<exists>es. store w' p = Some (Dir es)"
  by (auto simp: copy_entries_def split: option.splits fnode.splits)

lemma remove_file_frame: "remove_file p w = Inr w' \<Longrightarrow> q \<noteq> p \<Longrightarrow> store w' q = store w q"
  by (auto simp: remove_file_def split: option.splits fnode.splits)

lemma extractall_frame: "extractall t p w = Inr w' \<Longrightarrow> q \<noteq> p \<Longrightarrow> store w' q = store w q"
  by (auto simp: extractall_def copy_entries_frame split: sum.splits)

lemma copy_package_frame: "copy_package t p w = Inr w' \<Longrightarrow> q \<noteq> p \<Longrightarrow> store w' q = store w q"
  by (auto simp: copy_package_def split: sum.splits option.splits fnode.splits
      dest!: copy_entries_frame [where q = q] makedirs_frame [where q = q])

lemma copy_package_dir: "copy_package t p w = Inr w' \<Longrightarrow> \<exists>es. store w' p = Some (Dir es)"
  by (auto simp: copy_package_def split: sum.splits option.splits fnode.splits
      dest: copy_entries_dir)

lemma download_and_extract_frame:
  assumes "download_and_extract ev ip ip_root remote_ip w = (r, w')"
    and "outside_package ip_root ip q"
  shows "store w' q = store w q"
proof -
  from assms(2) have q: "\<not> under (path_join ip_root ip) q"
    "\<not> under (path_join ip_root (ip @ ''_temp_extract'')) q"
    "q \<noteq> path_join ip_root (ip @ ''.tar.gz'')"
    by (simp_all add: outside_package_def)
  then have q': "q \<noteq> path_join ip_root ip" "q \<noteq> path_join ip_root (ip @ ''_temp_extract'')"
    using under_self by auto
  have fr: "list_all (\<lambda>f. \<forall>w w'. f w = Inr w' \<longrightarrow> store w' q = store w q)
            [write_tarball (path_join ip_root (ip @ ''.tar.gz'')) b,
             (\<lambda>w. if path_exists w (path_join ip_root (ip @ ''_temp_extract''))
                  then rmtree (path_join ip_root (ip @ ''_temp_extract'')) w else Inr w),
             makedirs False (path_join ip_root (ip @ ''_temp_extract'')),
             extractall (path_join ip_root (ip @ ''.tar.gz'')) (path_join ip_root (ip @ ''_temp_extract'')),
             copy_package (path_join ip_root (ip @ ''_temp_extract'')) (path_join ip_root ip),
             rmtree (path_join ip_root (ip @ ''_temp_extract'')),
             remove_file (path_join ip_root (ip @ ''.tar.gz''))]" for b
    using q q'
    by (auto simp: write_tarball_frame rmtree_frame makedirs_frame extractall_frame
        copy_package_frame remove_file_frame split: if_splits)
  show ?thesis
    using assms(1)
    by (auto simp: download_and_extract_def Let_def try_pure_def simp del: steps.simps
        split: sum.splits json.splits if_splits dest!: steps_frame [OF fr])
qed

lemma download_and_extract_folder:
  assumes "download_and_extract ev ip ip_root remote_ip w = (Inr u, w')"
  shows "\<exists>es. store w' (path_join ip_root ip) = Some (Dir es)"
proof -
  have t: "path_join ip_root (ip @ ''_temp_extract'') = path_join ip_root ip @ ''_temp_extract''"
    "path_join ip_root (ip @ ''.tar.gz'') = path_join ip_root ip @ ''.tar.gz''"
    by (simp_all add: path_join_suffix)
  from assms obtain b w0 where
    "steps
       [write_tarball (path_join ip_root (ip @ ''.tar.gz'')) b,
        (\<lambda>w. if path_exists w (path_join ip_root (ip @ ''_temp_extract''))
             then rmtree (path_join ip_root (ip @ ''_temp_extract'')) w else Inr w),
        makedirs False (path_join ip_root (ip @ ''_temp_extract'')),
        extractall (path_join ip_root (ip @ ''.tar.gz'')) (path_join ip_root (ip @ ''_temp_extract'')),
        copy_package (path_join ip_root (ip @ ''_temp_extract'')) (path_join ip_root ip),
        rmtree (path_join ip_root (ip @ ''_temp_extract'')),
        remove_file (path_join ip_root (ip @ ''.tar.gz''))] w0 = (Inr u, w')"
    by (auto simp: download_and_extract_def Let_def try_pure_def simp del: steps.simps
        split: sum.splits json.splits if_splits)
  then obtain w5 w6 w7 where
    5: "copy_package (path_join ip_root (ip @ ''_temp_extract'')) (path_join ip_root ip) w5 = Inr w6"
    and 7: "rmtree (path_join ip_root (ip @ ''_temp_extract'')) w6 = Inr w7"
    and 8: "remove_file (path_join ip_root (ip @ ''.tar.gz'')) w7 = Inr w'"
    by (auto split: sum.splits)
  from copy_package_dir [OF 5] obtain es where "store w6 (path_join ip_root ip) = Some (Dir es)" ..
  moreover have "store w7 (path_join ip_root ip) = store w6 (path_join ip_root ip)"
    using rmtree_frame [OF 7, of "path_join ip_root ip"] not_under_longer [of "''_temp_extract''" "path_join ip_root ip"]
    by (simp add: t)
  moreover have "store w' (path_join ip_root ip) = store w7 (path_join ip_root ip)"
    using remove_file_frame [OF 8, of "path_join ip_root ip"] by (simp add: t)
  ultimately show ?thesis by simp
qed

lemma clear_destination_frame:
  assumes "clear_destination ipm_iproot ip False ip_root deps_file w = (r, w')"
    and "\<not> under (path_join ip_root ip) q"
  shows "store w' q = store w q"
  using assms
  by (auto simp: clear_destination_def try_pure_def run_def Let_def
      split: if_splits sum.splits dest: rmtree_frame)

lemma clear_destination_gone:
  assumes "clear_destination ipm_iproot ip False ip_root deps_file w = (Inr True, w')"
  shows "store w' (path_join ip_root ip) = None"
  using assms
  by (auto simp: clear_destination_def try_pure_def run_def Let_def path_exists_def under_self
      split: if_splits sum.splits dest: rmtree_gone [where q = "path_join ip_root ip"])

subsection \<open>What the writes of an install leave\<close>

lemma try_pure_eq_Inr:
  "(try_pure x w k = (Inr r, w')) = (\<exists>a. x = Inr a \<and> k a = (Inr r, w'))"
  by (auto simp: try_pure_def split: sum.splits)

lemma run_eq_Inr:
  "(run f w k = (Inr r, w')) = (\<exists>w1. f w = Inr w1 \<and> k w1 = (Inr r, w'))"
  by (auto simp: run_def split: sum.splits)

lemma then_do_eq_Inr:
  "(then_do m k = (Inr r, w')) = (\<exists>a w1. m = (Inr a, w1) \<and> k a w1 = (Inr r, w'))"
  by (auto simp: then_do_def split: sum.splits prod.splits)

lemma map_of_filter_key:
  "map_of (filter (\<lambda>(k', v). k' \<noteq> k) kvs) a = (if a = k then None else map_of kvs a)"
  by (induction kvs) auto

lemma map_of_dict_del:
  "dict_del k kvs = Inr d \<Longrightarrow> map_of d a = (if a = k then None else map_of kvs a)"
proof -
  assume "dict_del k kvs = Inr d"
  then have "d = filter (\<lambda>(k', v). k' \<noteq> k) kvs"
    by (simp add: dict_del_def split: if_splits)
  then show ?thesis
    by (simp only: map_of_filter_key)
qed

lemma append_at_result:
  assumes "append_at d key v = Inr d'"
  obtains kvs xs where "d = JObj kvs" "map_of kvs key = Some (JArr xs)"
    "d' = JObj (dict_set key (JArr (xs @ [v])) kvs)"
  using assms
  by (cases d) (auto simp: append_at_def subscript_def set_item_def split: option.splits json.splits)

lemma dump_json_result:
  "dump_json p j w = Inr w' \<Longrightarrow> store w' = (store w)(p \<mapsto> JsonFile j)"
  by (auto simp: dump_json_def split: option.splits fnode.splits)

lemma load_json_result:
  "load_json w p = Inr j \<Longrightarrow> store w p = Some (JsonFile j)"
  by (auto simp: load_json_def split: option.splits fnode.splits)

lemma add_ip_to_json_result:
  assumes "add_ip_to_json ev ipm_iproot remote_ip ip_root self w = (Inr self', w')"
  obtains kvs d c xs where
    "load_json w (path_join ipm_iproot LOCAL_JSON_FILE_NAME) = Inr (JObj kvs)"
    "dict_del ''release'' remote_ip = Inr d"
    "map_of d ''category'' = Some (JStr c)"
    "map_of kvs c = Some (JArr xs)"
    "store w' = (store w)(path_join ipm_iproot LOCAL_JSON_FILE_NAME \<mapsto>
        JsonFile (JObj (dict_set c
          (JArr (xs @ [JObj (dict_set ''ip_root'' (JStr (abspath ev ip_root)) d)])) kvs)))"
    "self' = dict_set ''ip_root'' (JStr (abspath ev ip_root)) self"
proof -
  from assms obtain json_decoded d cat json_decoded' where
    1: "load_json w (path_join ipm_iproot LOCAL_JSON_FILE_NAME) = Inr json_decoded"
    and 2: "dict_del ''release'' remote_ip = Inr d"
    and 3: "subscript (JObj (dict_set ''ip_root'' (JStr (abspath ev ip_root)) d)) ''category'' = Inr cat"
    and 4: "(case cat of
             JStr c \<Rightarrow> append_at json_decoded c (JObj (dict_set ''ip_root'' (JStr (abspath ev ip_root)) d))
           | JArr xs \<Rightarrow> Inl TypeError
           | JObj kvs \<Rightarrow> Inl TypeError
           | _ \<Rightarrow>
               (case json_decoded of
                  JObj kvs \<Rightarrow> Inl (KeyError (case py_str cat of None \<Rightarrow> [] | Some c \<Rightarrow> c))
                | JArr xs \<Rightarrow> Inl Unmodelled
                | _ \<Rightarrow> Inl TypeError)) = Inr json_decoded'"
    and 5: "dump_json (path_join ipm_iproot LOCAL_JSON_FILE_NAME) json_decoded' w = Inr w'"
    and 6: "self' = dict_set ''ip_root'' (JStr (abspath ev ip_root)) self"
    by (auto simp: add_ip_to_json_def Let_def try_pure_eq_Inr run_eq_Inr)
  from 4 obtain c where c: "cat = JStr c"
    "append_at json_decoded c (JObj (dict_set ''ip_root'' (JStr (abspath ev ip_root)) d)) = Inr json_decoded'"
    by (cases cat; cases json_decoded) auto
  from c(2) obtain kvs xs where k: "json_decoded = JObj kvs" "map_of kvs c = Some (JArr xs)"
    "json_decoded' = JObj (dict_set c (JArr (xs @ [JObj (dict_set ''ip_root'' (JStr (abspath ev ip_root)) d)])) kvs)"
    by (rule append_at_result)
  from 3 c(1) have "map_of d ''category'' = Some (JStr c)"
    by (auto simp: subscript_def map_of_dict_set split: option.splits)
  with 1 2 k dump_json_result [OF 5] 6 show thesis
    by (intro that) simp_all
qed

lemma create_deps_result:
  assumes "create_deps deps_file remote_ip local_ip w = (Inr u, w')"
  obtains m kvs xs n v t where
    "deps_path deps_file local_ip = Inr m"
    "(if path_exists w m then load_json w m else Inr (JObj [(''IP'', JArr [])])) = Inr (JObj kvs)"
    "map_of kvs ''IP'' = Some (JArr xs)"
    "map_of remote_ip ''name'' = Some n" "map_of remote_ip ''version'' = Some v"
    "map_of remote_ip ''technology'' = Some t"
    "store w' = (store w)(m \<mapsto>
        JsonFile (JObj (dict_set ''IP''
          (JArr (xs @ [JObj [(''name'', n), (''version'', v), (''technology'', t)]])) kvs)))"
proof -
  from assms obtain m json_decoded n v t json_decoded' where
    1: "deps_path deps_file local_ip = Inr m"
    and 2: "(if path_exists w m then load_json w m else Inr (JObj [(''IP'', JArr [])])) = Inr json_decoded"
    and 3: "subscript (JObj remote_ip) ''name'' = Inr n" "subscript (JObj remote_ip) ''version'' = Inr v"
      "subscript (JObj remote_ip) ''technology'' = Inr t"
    and 4: "append_at json_decoded ''IP'' (JObj [(''name'', n), (''version'', v), (''technology'', t)])
        = Inr json_decoded'"
    and 5: "dump_json m json_decoded' w = Inr w'"
    by (auto simp: create_deps_def try_pure_eq_Inr run_eq_Inr)
  from 4 obtain kvs xs where k: "json_decoded = JObj kvs" "map_of kvs ''IP'' = Some (JArr xs)"
    "json_decoded' = JObj (dict_set ''IP'' (JArr (xs @ [JObj [(''name'', n), (''version'', v), (''technology'', t)]])) kvs)"
    by (rule append_at_result)
  from 3 have "map_of remote_ip ''name'' = Some n" "map_of remote_ip ''version'' = Some v"
    "map_of remote_ip ''technology'' = Some t"
    by (auto simp: subscript_def split: option.splits)
  with 1 2 k dump_json_result [OF 5] show thesis
    by (intro that) simp_all
qed

lemma install_ip_steps:
  assumes "install_ip ev ipm_iproot ip overwrite technology version ip_root deps_file w = (Inr Installed, w4)"
  obtains w1 remote_ip u w2 local_ip w3 where
    "clear_destination ipm_iproot ip overwrite ip_root deps_file w = (Inr True, w1)"
    "RemoteIP_get_info (catalog ev) ip technology version = Inr remote_ip"
    "download_and_extract ev ip ip_root remote_ip w1 = (Inr u, w2)"
    "add_ip_to_json ev ipm_iproot remote_ip ip_root (new_LocalIP ip ipm_iproot) w2 = (Inr local_ip, w3)"
    "create_deps deps_file remote_ip local_ip w3 = (Inr (), w4)"
proof -
  from assms obtain go w1 where
    1: "clear_destination ipm_iproot ip overwrite ip_root deps_file w = (Inr go, w1)"
    and 2: "(if \<not> go then (Inr AlreadyExists, w1)
       else
         try_pure (RemoteIP_get_info (catalog ev) ip technology version) w1 (\<lambda>remote_ip.
         then_do (download_and_extract ev ip ip_root remote_ip w1) (\<lambda>u w2.
         then_do (add_ip_to_json ev ipm_iproot remote_ip ip_root (new_LocalIP ip ipm_iproot) w2)
           (\<lambda>local_ip w3.
         then_do (create_deps deps_file remote_ip local_ip w3) (\<lambda>u w4. (Inr Installed, w4))))))
       = (Inr Installed, w4)"
    by (auto simp: install_ip_def then_do_eq_Inr)
  from 2 have go: go by (auto split: if_splits)
  with 1 2 show thesis
    by (auto simp: then_do_eq_Inr try_pure_eq_Inr intro: that)
qed

subsection \<open>The attributes of a resolved instance\<close>

lemma chain_invariant:
  assumes "\<forall>f \<in> set fs. \<forall>s s'. I s \<longrightarrow> f s = Inr s' \<longrightarrow> I s'"
    and "I s" "chain fs s = Inr s'"
  shows "I s'"
  using assms
proof (induction fs arbitrary: s)
  case Nil
  then show ?case by simp
next
  case (Cons f fs)
  from Cons.prems(3) obtain s1 where s1: "f s = Inr s1" "chain fs s1 = Inr s'"
    by (cases "f s") simp_all
  have "f \<in> set (f # fs)" by simp
  from Cons.prems(1) [rule_format, OF this Cons.prems(2) s1(1)] have i: "I s1" .
  have rest: "\<forall>g \<in> set fs. \<forall>t t'. I t \<longrightarrow> g t = Inr t' \<longrightarrow> I t'"
  proof (intro ballI allI impI)
    fix g t t'
    assume g: "g \<in> set fs" and t: "I t" "g t = Inr t'"
    from g have "g \<in> set (f # fs)" by simp
    from Cons.prems(1) [rule_format, OF this t] show "I t'" .
  qed
  show ?case
    by (rule Cons.IH [OF rest i s1(2)])
qed

lemma flat_release_fields_attrs:
  assumes "flat_release_fields rel ver self = Inr s'"
  shows "has_attrs [''date'', ''type'', ''width'', ''height'', ''cell_count'', ''clk_freq'', ''status''] s'"
    and "a \<notin> set [''date'', ''type'', ''width'', ''height'', ''cell_count'', ''clk_freq'', ''status'']
      \<Longrightarrow> map_of s' a = map_of self a"
  using assms
  by (auto simp: flat_release_fields_def assign_def assign_from_def has_attrs_def map_of_dict_set
      split: sum.splits)

lemma flat_version_attrs:
  assumes "flat_version val ver self = Inr s'" "map_of self ''version'' = None"
  shows "map_of s' ''version'' \<noteq> None \<longrightarrow>
      has_attrs [''date'', ''type'', ''width'', ''height'', ''cell_count'', ''clk_freq'', ''status''] s'"
    and "a \<notin> set [''version'', ''date'', ''type'', ''width'', ''height'', ''cell_count'', ''clk_freq'', ''status'']
      \<Longrightarrow> map_of s' a = map_of self a"
  using assms
  by (auto simp: flat_version_def assign_def map_of_dict_set
      split: sum.splits option.splits if_splits bool.splits
      dest: flat_release_fields_attrs)


lemma get_info_flat_partly:
  assumes "get_info_flat data ip technology version [(''ip'', JStr ip)] = Inr s'"
  shows "map_of s' ''name'' = Some (JStr ip)" "map_of s' ''technology'' = Some (JStr technology)"
    "has_attrs [''release'', ''category'', ''author'', ''email'', ''tag'', ''license''] s'"
    "map_of s' ''version'' \<noteq> None \<longrightarrow>
      has_attrs [''date'', ''type'', ''width'', ''height'', ''cell_count'', ''clk_freq'', ''status''] s'"
proof -
  from assms obtain val b d f h j l n where
    fv: "flat_version val version
       [(''ip'', JStr ip), (''name'', JStr ip), (''repo'', b), (''author'', d), (''email'', f),
        (''category'', h), (''technology'', JStr technology), (''license'', j), (''tag'', l),
        (''release'', n)] = Inr s'"
    by (auto simp: get_info_flat_def assign_def assign_from_def split: sum.splits)
  define s9 where "s9 = [(''ip'', JStr ip), (''name'', JStr ip), (''repo'', b), (''author'', d),
     (''email'', f), (''category'', h), (''technology'', JStr technology), (''license'', j),
     (''tag'', l), (''release'', n)]"
  have s9: "map_of s9 ''name'' = Some (JStr ip)" "map_of s9 ''technology'' = Some (JStr technology)"
      "has_attrs [''release'', ''category'', ''author'', ''email'', ''tag'', ''license''] s9"
      "map_of s9 ''version'' = None"
    by (simp_all add: s9_def has_attrs_def)
  from fv have fv: "flat_version val version s9 = Inr s'"
    by (simp add: s9_def)
  from flat_version_attrs(2) [OF fv s9(4)] s9(1-3)
  show "map_of s' ''name'' = Some (JStr ip)" "map_of s' ''technology'' = Some (JStr technology)"
    "has_attrs [''release'', ''category'', ''author'', ''email'', ''tag'', ''license''] s'"
    by (simp_all add: has_attrs_def)
  from flat_version_attrs(1) [OF fv s9(4)]
  show "map_of s' ''version'' \<noteq> None \<longrightarrow>
      has_attrs [''date'', ''type'', ''width'', ''height'', ''cell_count'', ''clk_freq'', ''status''] s'" .
qed

lemma legacy_pick_version_attrs:
  assumes "legacy_pick_version v rels self = Inr s'"
  shows "(a \<noteq> ''version'' \<and> a \<noteq> ''date'' \<longrightarrow> map_of s' a = map_of self a) \<and>
    ((map_of self ''version'' \<noteq> None \<longrightarrow> map_of self ''date'' \<noteq> None) \<longrightarrow>
     (map_of s' ''version'' \<noteq> None \<longrightarrow> map_of s' ''date'' \<noteq> None))"
  using assms
proof (induction rels arbitrary: self)
  case Nil
  then show ?case by simp
next
  case (Cons r rels)
  from Cons.prems obtain s1 where
    s1: "legacy_pick_version v rels s1 = Inr s'"
    and keep: "a \<noteq> ''version'' \<and> a \<noteq> ''date'' \<longrightarrow> map_of s1 a = map_of self a"
    and vd: "(map_of self ''version'' \<noteq> None \<longrightarrow> map_of self ''date'' \<noteq> None) \<longrightarrow>
       (map_of s1 ''version'' \<noteq> None \<longrightarrow> map_of s1 ''date'' \<noteq> None)"
    by (auto simp: assign_from_def map_of_dict_set split: sum.splits if_splits)
  from Cons.IH [OF s1] keep vd show ?case by simp
qed

lemma legacy_version_attrs:
  assumes "legacy_version val version self = Inr s'"
  shows "(a \<noteq> ''version'' \<and> a \<noteq> ''date'' \<longrightarrow> map_of s' a = map_of self a) \<and>
    ((map_of self ''version'' \<noteq> None \<longrightarrow> map_of self ''date'' \<noteq> None) \<longrightarrow>
     (map_of s' ''version'' \<noteq> None \<longrightarrow> map_of s' ''date'' \<noteq> None))"
proof (cases version)
  case None
  with assms show ?thesis
    by (auto simp: legacy_version_def assign_from_def map_of_dict_set split: sum.splits)
next
  case (Some v)
  with assms obtain rels where "legacy_pick_version v rels self = Inr s'"
    by (auto simp: legacy_version_def split: sum.splits)
  from legacy_pick_version_attrs [OF this] show ?thesis .
qed

lemma legacy_record_partly:
  assumes "partly_resolved ip technology self"
    and "legacy_record ip technology version key val self = Inr s'"
  shows "partly_resolved ip technology s'"
proof (cases "legacy_matches ip technology val")
  case False
  with assms show ?thesis
    by (auto simp: legacy_record_def legacy_matches_def split: sum.splits if_splits)
next
  case True
  with assms(2) have "chain
       ([assign ''name'' (JStr ip),
         assign_from ''repo'' val ''repo'',
         assign_from ''release'' val ''release'',
         legacy_version val version] @
        [assign_from ''author'' val ''author'',
         assign_from ''email'' val ''email'',
         assign ''category'' (JStr key),
         assign_from ''type'' val ''type'',
         assign_from ''status'' val ''status'',
         assign_from ''width'' val ''width'',
         assign_from ''height'' val ''height'',
         assign ''technology'' (JStr technology),
         assign_from ''tag'' val ''tag'',
         assign_from ''cell_count'' val ''cell_count'',
         assign_from ''clk_freq'' val ''clk_freq'',
         assign_from ''license'' val ''license'']) self = Inr s'"
    by (auto simp: legacy_record_def legacy_matches_def simp del: chain.simps
        split: sum.splits if_splits)
  then obtain s3 where
    first: "chain
       [assign ''name'' (JStr ip),
        assign_from ''repo'' val ''repo'',
        assign_from ''release'' val ''release'',
        legacy_version val version] self = Inr s3"
    and s': "chain
       [assign_from ''author'' val ''author'',
        assign_from ''email'' val ''email'',
        assign ''category'' (JStr key),
        assign_from ''type'' val ''type'',
        assign_from ''status'' val ''status'',
        assign_from ''width'' val ''width'',
        assign_from ''height'' val ''height'',
        assign ''technology'' (JStr technology),
        assign_from ''tag'' val ''tag'',
        assign_from ''cell_count'' val ''cell_count'',
        assign_from ''clk_freq'' val ''clk_freq'',
        assign_from ''license'' val ''license''] s3 = Inr s'"
    unfolding chain_append by (auto split: sum.splits)
  from first obtain x y where
    lv: "legacy_version val version
       (dict_set ''release'' y (dict_set ''repo'' x (dict_set ''name'' (JStr ip) self))) = Inr s3"
    by (auto simp: assign_def assign_from_def split: sum.splits)
  define s2 where "s2 = dict_set ''release'' y (dict_set ''repo'' x (dict_set ''name'' (JStr ip) self))"
  have s2: "map_of s2 ''name'' = Some (JStr ip)" "map_of s2 ''repo'' \<noteq> None" "map_of s2 ''release'' \<noteq> None"
      "map_of s2 ''version'' = map_of self ''version''" "map_of s2 ''date'' = map_of self ''date''"
    by (simp_all add: s2_def map_of_dict_set)
  from lv have lv: "legacy_version val version s2 = Inr s3"
    by (simp add: s2_def)
  from legacy_version_attrs [OF lv, of "''name''"] legacy_version_attrs [OF lv, of "''repo''"]
    legacy_version_attrs [OF lv, of "''release''"] s2 assms(1)
  have s3: "map_of s3 ''name'' = Some (JStr ip)" "map_of s3 ''repo'' \<noteq> None" "map_of s3 ''release'' \<noteq> None"
    "map_of s3 ''version'' \<noteq> None \<longrightarrow> map_of s3 ''date'' \<noteq> None"
    by (auto simp: partly_resolved_def)
  from s' s3 show ?thesis
    by (auto simp: assign_def assign_from_def map_of_dict_set partly_resolved_def has_attrs_def
        split: sum.splits)
qed

lemma legacy_category_partly:
  assumes "partly_resolved ip technology self"
    and "legacy_category ip technology version kv self = Inr s'"
  shows "partly_resolved ip technology s'"
proof -
  from assms(2) obtain vals where
    c: "chain (map (legacy_record ip technology version (fst kv)) vals) self = Inr s'"
    by (auto simp: legacy_category_def split: sum.splits)
  have "\<forall>f \<in> set (map (legacy_record ip technology version (fst kv)) vals).
      \<forall>s s'. partly_resolved ip technology s \<longrightarrow> f s = Inr s' \<longrightarrow> partly_resolved ip technology s'"
    using legacy_record_partly by auto
  from chain_invariant [OF this assms(1) c] show ?thesis .
qed

lemma get_info_legacy_partly:
  assumes "get_info_legacy data ip technology version [(''ip'', JStr ip)] = Inr s'"
  shows "partly_resolved ip technology s'"
proof -
  from assms obtain kvs where
    c: "chain (map (legacy_category ip technology version) kvs) [(''ip'', JStr ip)] = Inr s'"
    by (auto simp: get_info_legacy_def split: sum.splits)
  have i: "partly_resolved ip technology [(''ip'', JStr ip)]"
    by (simp add: partly_resolved_def)
  have "\<forall>f \<in> set (map (legacy_category ip technology version) kvs).
      \<forall>s s'. partly_resolved ip technology s \<longrightarrow> f s = Inr s' \<longrightarrow> partly_resolved ip technology s'"
    using legacy_category_partly by auto
  from chain_invariant [OF this i c] show ?thesis .
qed

lemma set_release_url_attrs:
  assumes "set_release_url s = Inr self"
  shows "\<exists>r. map_of s ''repo'' = Some (JStr r)" "\<exists>v t. map_of s ''version'' = Some v \<and> py_str v = Some t"
    "a \<noteq> ''possible_urls'' \<and> a \<noteq> ''release_url'' \<longrightarrow> map_of self a = map_of s a"
  using assms
  by (auto simp: set_release_url_def attr_def assign_def map_of_dict_set
      split: sum.splits json.splits option.splits)

lemma RemoteIP_get_info_resolved:
  assumes "RemoteIP_get_info data ip technology version = Inr self"
  shows "resolved ip technology self"
proof -
  from assms obtain s where
    s: "(get_info_flat data ip technology version [(''ip'', JStr ip)] = Inr s \<or>
         get_info_legacy data ip technology version [(''ip'', JStr ip)] = Inr s)"
    and u: "set_release_url s = Inr self"
    by (auto simp: RemoteIP_get_info_def split: sum.splits if_splits)
  note r = set_release_url_attrs [OF u]
  from s have "map_of s ''name'' = Some (JStr ip) \<and> map_of s ''technology'' = Some (JStr technology) \<and>
      has_attrs [''release'', ''category'', ''date'', ''author'', ''email'', ''type'', ''status'',
        ''width'', ''height'', ''tag'', ''cell_count'', ''clk_freq'', ''license''] s"
  proof
    assume f: "get_info_flat data ip technology version [(''ip'', JStr ip)] = Inr s"
    from get_info_flat_partly [OF f] r(2) show ?thesis
      by (auto simp: has_attrs_def)
  next
    assume l: "get_info_legacy data ip technology version [(''ip'', JStr ip)] = Inr s"
    from get_info_legacy_partly [OF l] r(1,2) show ?thesis
      by (auto simp: partly_resolved_def has_attrs_def)
  qed
  with r show ?thesis
    by (auto simp: resolved_def has_attrs_def)
qed

subsection \<open>What an install records\<close>

lemma deps_path_manifest:
  assumes "map_of local_ip ''ip_root'' = Some (JStr r)"
  shows "deps_path deps_file local_ip = Inr (manifest_path r deps_file)"
  using assms by (simp add: deps_path_def manifest_path_def attr_def)

lemma manifest_path_not_registry:
  "manifest_path r deps_file \<noteq> path_join ipm_iproot LOCAL_JSON_FILE_NAME"
proof (cases "deps_file \<noteq> None \<and> deps_file \<noteq> Some []")
  case True
  then have "manifest_path r deps_file = path_join (the deps_file) DEPENDENCIES_FILE_NAME"
    by (simp add: manifest_path_def)
  with path_join_names_differ [of ipm_iproot "the deps_file"] show ?thesis by simp
next
  case False
  then have "manifest_path r deps_file = path_join r DEPENDENCIES_FILE_NAME"
    by (auto simp: manifest_path_def)
  with path_join_names_differ [of ipm_iproot r] show ?thesis by simp
qed

lemma install_ip_records:
  assumes "install_ip ev ipm_iproot ip overwrite technology version ip_root deps_file w = (Inr Installed, w')"
  shows "\<exists>kvs c xs rec. store w' (path_join ipm_iproot LOCAL_JSON_FILE_NAME) = Some (JsonFile (JObj kvs)) \<and>
           map_of kvs c = Some (JArr (xs @ [JObj rec])) \<and>
           map_of rec ''name'' = Some (JStr ip) \<and> map_of rec ''category'' = Some (JStr c) \<and>
           map_of rec ''ip_root'' = Some (JStr (abspath ev ip_root))"
    and "\<exists>kvs xs v. store w' (manifest_path (abspath ev ip_root) deps_file) = Some (JsonFile (JObj kvs)) \<and>
           map_of kvs ''IP'' = Some (JArr (xs @
             [JObj [(''name'', JStr ip), (''version'', v), (''technology'', JStr technology)]]))"
proof -
  from assms obtain w1 remote_ip u w2 local_ip w3 where
    r: "RemoteIP_get_info (catalog ev) ip technology version = Inr remote_ip"
    and a: "add_ip_to_json ev ipm_iproot remote_ip ip_root (new_LocalIP ip ipm_iproot) w2 = (Inr local_ip, w3)"
    and c: "create_deps deps_file remote_ip local_ip w3 = (Inr (), w')"
    by (rule install_ip_steps)
  from RemoteIP_get_info_resolved [OF r] have
    res: "map_of remote_ip ''name'' = Some (JStr ip)" "map_of remote_ip ''technology'' = Some (JStr technology)"
    by (simp_all add: resolved_def)
  from a obtain kvs d c' xs where
    d: "dict_del ''release'' remote_ip = Inr d" "map_of d ''category'' = Some (JStr c')"
      "map_of kvs c' = Some (JArr xs)"
    and w3: "store w3 = (store w2)(path_join ipm_iproot LOCAL_JSON_FILE_NAME \<mapsto>
        JsonFile (JObj (dict_set c'
          (JArr (xs @ [JObj (dict_set ''ip_root'' (JStr (abspath ev ip_root)) d)])) kvs)))"
    and l: "local_ip = dict_set ''ip_root'' (JStr (abspath ev ip_root)) (new_LocalIP ip ipm_iproot)"
    by (rule add_ip_to_json_result)
  from l have "map_of local_ip ''ip_root'' = Some (JStr (abspath ev ip_root))"
    by (simp add: map_of_dict_set)
  note p = deps_path_manifest [OF this, of deps_file]
  from c obtain m mkvs ys n v t where
    m: "deps_path deps_file local_ip = Inr m" "map_of mkvs ''IP'' = Some (JArr ys)"
      "map_of remote_ip ''name'' = Some n" "map_of remote_ip ''version'' = Some v"
      "map_of remote_ip ''technology'' = Some t"
    and w': "store w' = (store w3)(m \<mapsto>
        JsonFile (JObj (dict_set ''IP''
          (JArr (ys @ [JObj [(''name'', n), (''version'', v), (''technology'', t)]])) mkvs)))"
    by (rule create_deps_result)
  from m(1) p have m_eq: "m = manifest_path (abspath ev ip_root) deps_file" by simp
  have ne: "m \<noteq> path_join ipm_iproot LOCAL_JSON_FILE_NAME"
    unfolding m_eq by (rule manifest_path_not_registry)
  let ?rec = "dict_set ''ip_root'' (JStr (abspath ev ip_root)) d"
  have "store w' (path_join ipm_iproot LOCAL_JSON_FILE_NAME) =
      Some (JsonFile (JObj (dict_set c' (JArr (xs @ [JObj ?rec])) kvs)))"
    using w' w3 ne by simp
  moreover have "map_of (dict_set c' (JArr (xs @ [JObj ?rec])) kvs) c' = Some (JArr (xs @ [JObj ?rec]))"
    by (simp add: map_of_dict_set)
  moreover have "map_of ?rec ''name'' = Some (JStr ip)" "map_of ?rec ''category'' = Some (JStr c')"
    "map_of ?rec ''ip_root'' = Some (JStr (abspath ev ip_root))"
    using res(1) d(2) map_of_dict_del [OF d(1)] by (simp_all add: map_of_dict_set)
  ultimately show "\<exists>kvs c xs rec. store w' (path_join ipm_iproot LOCAL_JSON_FILE_NAME) = Some (JsonFile (JObj kvs)) \<and>
           map_of kvs c = Some (JArr (xs @ [JObj rec])) \<and>
           map_of rec ''name'' = Some (JStr ip) \<and> map_of rec ''category'' = Some (JStr c) \<and>
           map_of rec ''ip_root'' = Some (JStr (abspath ev ip_root))"
    by blast
  from m(3,5) res have "n = JStr ip" "t = JStr technology" by simp_all
  with w' m_eq have "store w' (manifest_path (abspath ev ip_root) deps_file) =
      Some (JsonFile (JObj (dict_set ''IP''
        (JArr (ys @ [JObj [(''name'', JStr ip), (''version'', v), (''technology'', JStr technology)]])) mkvs)))"
    by simp
  moreover have "map_of (dict_set ''IP''
        (JArr (ys @ [JObj [(''name'', JStr ip), (''version'', v), (''technology'', JStr technology)]])) mkvs) ''IP''
      = Some (JArr (ys @ [JObj [(''name'', JStr ip), (''version'', v), (''technology'', JStr technology)]]))"
    by (simp add: map_of_dict_set)
  ultimately show "\<exists>kvs xs v. store w' (manifest_path (abspath ev ip_root) deps_file) = Some (JsonFile (JObj kvs)) \<and>
           map_of kvs ''IP'' = Some (JArr (xs @
             [JObj [(''name'', JStr ip), (''version'', v), (''technology'', JStr technology)]]))"
    by blast
qed

end
